theory Spec2Isabelle
  imports Complex_Main "HOL-Library.Log_Nat"
begin

section \<open>The sample application: handlers, work simulator and telemetry bootstrap\<close>

text \<open>
  A shallow embedding of \<^verbatim>\<open>main.go\<close>. The Go program keeps its telemetry handles in
  package-level variables, draws from the process-wide random source, reads the clock and
  writes spans, metric measurements and log lines. All of that is one explicit state
  record, \<open>world\<close>, that every function takes and returns. The libraries the program calls
  (\<^verbatim>\<open>math/rand\<close>, \<^verbatim>\<open>net/http\<close>, \<^verbatim>\<open>time\<close>, \<^verbatim>\<open>fmt\<close>, OpenTelemetry) are not part of the repository;
  they are modelled by their documented contracts.
\<close>

subsection \<open>float64 values\<close>

text \<open>
  Every finite float64 is a rational number, so a finite float64 value is modelled by the
  rational it denotes. An arithmetic operation computes the exact rational result and
  rounds it to the nearest float64, ties to even: 53 significant bits, and a spacing of
  \<open>2^-1074\<close> in the subnormal range. Overflow to infinity is not modelled; every value the
  program computes is far below \<open>2^1024\<close>.
\<close>

definition pow2 :: "int \<Rightarrow> rat" where
  "pow2 e = (if 0 \<le> e then 2 ^ nat e else 1 / 2 ^ nat (- e))"

definition rne :: "rat \<Rightarrow> int" where
  \<comment> \<open>round to the nearest integer, ties to the even one\<close>
  "rne x = (let f = \<lfloor>x\<rfloor>; d = x - of_int f
            in if d < 1 / 2 then f
               else if 1 / 2 < d then f + 1
               else if even f then f else f + 1)"

definition binade :: "rat \<Rightarrow> int" where
  \<comment> \<open>for \<open>0 < x\<close>: the exponent \<open>e\<close> with \<open>2^e \<le> x < 2^(e+1)\<close>\<close>
  "binade x = (if 1 \<le> x then bitlen \<lfloor>x\<rfloor> - 1 else - bitlen (\<lceil>1 / x\<rceil> - 1))"

definition ulp_exp :: "rat \<Rightarrow> int" where
  \<comment> \<open>exponent of the float64 spacing around a nonzero \<open>x\<close>\<close>
  "ulp_exp x = max (binade \<bar>x\<bar> - 52) (- 1074)"

definition fl64 :: "rat \<Rightarrow> rat" where
  "fl64 x = (if x = 0 then 0
             else sgn x * of_int (rne (\<bar>x\<bar> / pow2 (ulp_exp x))) * pow2 (ulp_exp x))"

definition is_float64 :: "rat \<Rightarrow> bool" where
  "is_float64 x \<longleftrightarrow> fl64 x = x"

definition fmul :: "rat \<Rightarrow> rat \<Rightarrow> rat" where
  "fmul a b = fl64 (a * b)"

definition fdiv :: "rat \<Rightarrow> rat \<Rightarrow> rat" where
  "fdiv a b = fl64 (a / b)"

definition fadd :: "rat \<Rightarrow> rat \<Rightarrow> rat" where
  "fadd a b = fl64 (a + b)"

definition float64_of_int :: "int \<Rightarrow> rat" where
  "float64_of_int i = fl64 (of_int i)"

subsection \<open>Formatting: \<^verbatim>\<open>strconv.Itoa\<close>, \<^verbatim>\<open>%d\<close> and \<^verbatim>\<open>%.2f\<close>\<close>

definition digit_char :: "nat \<Rightarrow> char" where
  "digit_char d = ''0123456789'' ! d"

fun show_nat :: "nat \<Rightarrow> string" where
  "show_nat n = (if n < 10 then [digit_char n]
                 else show_nat (n div 10) @ [digit_char (n mod 10)])"

declare show_nat.simps [simp del]

definition Itoa :: "int \<Rightarrow> string" where
  "Itoa i = (if i < 0 then ''-'' @ show_nat (nat (- i)) else show_nat (nat i))"

definition fmt_f2 :: "rat \<Rightarrow> string" where
  \<comment> \<open>\<^verbatim>\<open>%.2f\<close>: the exact value rounded to two decimals, ties to even\<close>
  "fmt_f2 x = (let n = nat (rne (\<bar>x\<bar> * 100))
               in (if x < 0 then ''-'' else [])
                  @ show_nat (n div 100) @ ''.''
                  @ [digit_char (n mod 100 div 10), digit_char (n mod 10)])"

subsection \<open>Spans, instruments and the process state\<close>

datatype attr_value = AString string | AInt int | ABool bool | AFloat rat

type_synonym KeyValue = "string \<times> attr_value"

record Span =
  span_name :: string
  span_parent :: "nat option"
  span_attrs :: "string \<rightharpoonup> attr_value"
  span_ended :: bool

text \<open>A \<^verbatim>\<open>context.Context\<close> matters here only for the span it carries, if any.\<close>

type_synonym ctx = "nat option"

record Tracer =
  tracer_name :: string
  tracer_version :: string

record Meter =
  meter_name :: string
  meter_version :: string

record Instrument =
  instr_name :: string
  instr_desc :: string

datatype error = Error string

datatype ExporterKind = TraceExporter | MetricExporter

record Exporter =
  exp_kind :: ExporterKind
  exp_insecure :: bool

record Provider =
  prov_exporter :: Exporter
  prov_resource :: "KeyValue list"

datatype Propagator = TraceContext

record world =
  \<comment> \<open>the package-level variables of \<^verbatim>\<open>main.go\<close>; \<open>None\<close> is Go's \<^verbatim>\<open>nil\<close>\<close>
  tracer :: "Tracer option"
  meter :: "Meter option"
  requestCounter :: "Instrument option"
  requestDuration :: "Instrument option"
  \<comment> \<open>the global providers of the otel package\<close>
  otel_TracerProvider :: "Provider option"
  otel_TextMapPropagator :: "Propagator option"
  otel_MeterProvider :: "Provider option"
  \<comment> \<open>the random source: what the next calls will draw, and how many were made\<close>
  rand_src :: "nat \<Rightarrow> nat"
  rand_unit :: "nat \<Rightarrow> rat"
  rand_pos :: nat
  \<comment> \<open>the clock in nanoseconds, and the arguments of the calls of \<^verbatim>\<open>time.Sleep\<close>\<close>
  clock :: int
  sleeps :: "int list"
  \<comment> \<open>what telemetry and logging have received\<close>
  spans :: "Span list"
  counter_log :: "(Instrument \<times> ctx \<times> int \<times> KeyValue list) list"
  hist_log :: "(Instrument \<times> ctx \<times> rat \<times> KeyValue list) list"
  log_lines :: "string list"

datatype panic = NilPointer

subsection \<open>\<^verbatim>\<open>math/rand\<close>, \<^verbatim>\<open>time\<close>, \<^verbatim>\<open>log\<close>\<close>

text \<open>
  \<^verbatim>\<open>rand.Intn(n)\<close> returns a number in \<open>[0, n)\<close>: the next entry of the source reduced
  modulo \<open>n\<close>, so that every value of the range can come up. Every call site passes a
  positive constant. \<^verbatim>\<open>rand.Float64()\<close> returns a float64 in \<open>[0.0, 1.0)\<close>; the source
  supplies it, and the theorems that depend on the range assume \<open>unit_float64\<close> of it.
\<close>

definition rand_Intn :: "nat \<Rightarrow> world \<Rightarrow> nat \<times> world" where
  "rand_Intn n s = (rand_src s (rand_pos s) mod n, s\<lparr>rand_pos := rand_pos s + 1\<rparr>)"

definition rand_Float64 :: "world \<Rightarrow> rat \<times> world" where
  "rand_Float64 s = (rand_unit s (rand_pos s), s\<lparr>rand_pos := rand_pos s + 1\<rparr>)"

definition unit_float64 :: "rat \<Rightarrow> bool" where
  "unit_float64 u \<longleftrightarrow> is_float64 u \<and> 0 \<le> u \<and> u < 1"

definition Millisecond :: int where
  "Millisecond = 1000000"

definition Second :: int where
  "Second = 1000000000"

definition quo :: "int \<Rightarrow> int \<Rightarrow> int" where
  \<comment> \<open>Go's integer division truncates towards zero\<close>
  "quo a b = sgn a * sgn b * (\<bar>a\<bar> div \<bar>b\<bar>)"

definition rem :: "int \<Rightarrow> int \<Rightarrow> int" where
  "rem a b = a - b * quo a b"

definition Duration_Milliseconds :: "int \<Rightarrow> int" where
  "Duration_Milliseconds d = quo d 1000000"

definition Duration_Seconds :: "int \<Rightarrow> rat" where
  "Duration_Seconds d =
     fadd (float64_of_int (quo d Second)) (fdiv (float64_of_int (rem d Second)) 1000000000)"

definition time_Now :: "world \<Rightarrow> int" where
  "time_Now s = clock s"

definition time_Since :: "int \<Rightarrow> world \<Rightarrow> int" where
  "time_Since t s = clock s - t"

definition time_Sleep :: "int \<Rightarrow> world \<Rightarrow> world" where
  \<comment> \<open>the only passage of time in the model; a non-positive duration returns at once\<close>
  "time_Sleep d s = s\<lparr>clock := clock s + max d 0, sleeps := sleeps s @ [d]\<rparr>"

definition log_Printf :: "string \<Rightarrow> world \<Rightarrow> world" where
  "log_Printf msg s = s\<lparr>log_lines := log_lines s @ [msg]\<rparr>"

subsection \<open>Tracing and metrics\<close>

definition tracer_Start :: "Tracer \<Rightarrow> ctx \<Rightarrow> string \<Rightarrow> world \<Rightarrow> (ctx \<times> nat) \<times> world" where
  \<comment> \<open>a new span, child of the span of the given context; returns the context carrying it\<close>
  "tracer_Start t c name s =
     (let i = length (spans s)
      in ((Some i, i),
          s\<lparr>spans := spans s @ [\<lparr>span_name = name, span_parent = c,
                                  span_attrs = Map.empty, span_ended = False\<rparr>]\<rparr>))"

definition set_attrs :: "KeyValue list \<Rightarrow> (string \<rightharpoonup> attr_value) \<Rightarrow> (string \<rightharpoonup> attr_value)" where
  "set_attrs kvs m = fold (\<lambda>kv m. m(fst kv \<mapsto> snd kv)) kvs m"

definition Span_SetAttributes :: "ctx \<Rightarrow> KeyValue list \<Rightarrow> world \<Rightarrow> world" where
  \<comment> \<open>a later value of a key overwrites; no span, or an ended one, ignores the call\<close>
  "Span_SetAttributes sp kvs s =
     (case sp of
        None \<Rightarrow> s
      | Some i \<Rightarrow>
          if i < length (spans s) \<and> \<not> span_ended (spans s ! i)
          then s\<lparr>spans := (spans s)[i := (spans s ! i)\<lparr>span_attrs :=
                              set_attrs kvs (span_attrs (spans s ! i))\<rparr>]\<rparr>
          else s)"

definition Span_End :: "nat \<Rightarrow> world \<Rightarrow> world" where
  "Span_End i s =
     (if i < length (spans s)
      then s\<lparr>spans := (spans s)[i := (spans s ! i)\<lparr>span_ended := True\<rparr>]\<rparr>
      else s)"

definition Int64Counter_Add :: "Instrument \<Rightarrow> ctx \<Rightarrow> int \<Rightarrow> KeyValue list \<Rightarrow> world \<Rightarrow> world" where
  "Int64Counter_Add c cx n attrs s = s\<lparr>counter_log := counter_log s @ [(c, cx, n, attrs)]\<rparr>"

definition Float64Histogram_Record :: "Instrument \<Rightarrow> ctx \<Rightarrow> rat \<Rightarrow> KeyValue list \<Rightarrow> world \<Rightarrow> world" where
  "Float64Histogram_Record h cx v attrs s = s\<lparr>hist_log := hist_log s @ [(h, cx, v, attrs)]\<rparr>"

subsection \<open>\<^verbatim>\<open>net/http\<close>: request and response writer\<close>

text \<open>
  The response writer behaves as \<^verbatim>\<open>httptest.ResponseRecorder\<close>, the writer of the
  repository's tests: the first \<^verbatim>\<open>WriteHeader\<close> fixes the status code and the headers sent,
  later ones are ignored; a \<^verbatim>\<open>Write\<close> before any \<^verbatim>\<open>WriteHeader\<close> sends status 200 and, if no
  Content-Type is set, the type detected from the data. Header keys are given in
  canonical form.
\<close>

record Request =
  Method :: string
  URL :: string
  ReqHeader :: "string \<rightharpoonup> string list"
  ReqBody :: string
  ReqCtx :: ctx

record ResponseRecorder =
  Code :: int
  HeaderMap :: "string \<rightharpoonup> string list"
  Body :: string
  wroteHeader :: bool
  snapHeader :: "(string \<rightharpoonup> string list) option"
  DetectContentType :: "string \<Rightarrow> string"

definition NewRecorder :: "(string \<Rightarrow> string) \<Rightarrow> ResponseRecorder" where
  "NewRecorder sniff = \<lparr>Code = 200, HeaderMap = Map.empty, Body = [], wroteHeader = False,
                         snapHeader = None, DetectContentType = sniff\<rparr>"

definition Header_Set :: "string \<Rightarrow> string \<Rightarrow> ResponseRecorder \<Rightarrow> ResponseRecorder" where
  "Header_Set k v w = w\<lparr>HeaderMap := (HeaderMap w)(k \<mapsto> [v])\<rparr>"

definition Header_Get :: "(string \<rightharpoonup> string list) \<Rightarrow> string \<Rightarrow> string" where
  "Header_Get h k = (case h k of None \<Rightarrow> [] | Some [] \<Rightarrow> [] | Some (v # _) \<Rightarrow> v)"

definition WriteHeader :: "int \<Rightarrow> ResponseRecorder \<Rightarrow> ResponseRecorder" where
  "WriteHeader code w =
     (if wroteHeader w then w
      else w\<lparr>Code := code, wroteHeader := True, snapHeader := Some (HeaderMap w)\<rparr>)"

definition Write :: "string \<Rightarrow> ResponseRecorder \<Rightarrow> ResponseRecorder" where
  "Write buf w =
     (let w1 = (if wroteHeader w then w
                else WriteHeader 200
                       (if HeaderMap w ''Content-Type'' = None
                           \<and> Header_Get (HeaderMap w) ''Transfer-Encoding'' = []
                        then Header_Set ''Content-Type'' (DetectContentType w buf) w
                        else w))
      in w1\<lparr>Body := Body w1 @ buf\<rparr>)"

definition StatusOK :: int where
  "StatusOK = 200"

definition StatusInternalServerError :: int where
  "StatusInternalServerError = 500"

subsection \<open>The work simulator and the three handlers\<close>

definition simulateWork :: "ctx \<Rightarrow> world \<Rightarrow> world" where
  "simulateWork cx s0 =
     (let span = cx;
          (n, s1) = rand_Intn 500 s0;
          workDuration = int n * Millisecond;
          s2 = time_Sleep workDuration s1;
          s3 = Span_SetAttributes span
                 [(''work.type'', AString ''processing''),
                  (''work.duration_ms'', AInt (Duration_Milliseconds workDuration))] s2;
          (e, s4) = rand_Intn 10 s3
      in if e = 0
         then log_Printf ''Simulated error occurred''
                (Span_SetAttributes span [(''error'', ABool True)] s4)
         else s4)"

definition healthHandler ::
  "ResponseRecorder \<Rightarrow> Request \<Rightarrow> world \<Rightarrow> panic option \<times> ResponseRecorder \<times> world" where
  "healthHandler w r s0 =
     (case tracer s0 of
        None \<Rightarrow> (Some NilPointer, w, s0)
      | Some t \<Rightarrow>
          let ((cx, span), s1) = tracer_Start t (ReqCtx r) ''health_check'' s0;
              start = time_Now s1
          in (case requestCounter s1 of
               None \<Rightarrow> (Some NilPointer, w, Span_End span s1)
             | Some c \<Rightarrow>
                 let s2 = Int64Counter_Add c cx 1
                            [(''method'', AString (Method r)),
                             (''endpoint'', AString ''/health''),
                             (''status'', AString ''200'')] s1;
                     w1 = WriteHeader StatusOK w;
                     w2 = Write ''OK'' w1;
                     duration = Duration_Seconds (time_Since start s2)
                 in (case requestDuration s2 of
                      None \<Rightarrow> (Some NilPointer, w2, Span_End span s2)
                    | Some h \<Rightarrow>
                        let s3 = Float64Histogram_Record h cx duration
                                   [(''method'', AString (Method r)),
                                    (''endpoint'', AString ''/health'')] s2
                        in (None, w2, Span_End span s3))))"

definition workHandler ::
  "ResponseRecorder \<Rightarrow> Request \<Rightarrow> world \<Rightarrow> panic option \<times> ResponseRecorder \<times> world" where
  "workHandler w r s0 =
     (case tracer s0 of
        None \<Rightarrow> (Some NilPointer, w, s0)
      | Some t \<Rightarrow>
          let ((cx, span), s1) = tracer_Start t (ReqCtx r) ''do_work'' s0;
              start = time_Now s1;
              (uid, s2) = rand_Intn 100 s1;
              (rid, s3) = rand_Intn 10000 s2;
              s4 = Span_SetAttributes (Some span)
                     [(''user.id'', AString (''user-'' @ Itoa (int uid))),
                      (''request.id'', AString (''req-'' @ Itoa (int rid)))] s3;
              ((childCtx, childSpan), s5) = tracer_Start t cx ''nested_operation'' s4;
              s6 = simulateWork childCtx s5;
              s7 = Span_End childSpan s6;
              (d, s8) = rand_Intn 20 s7;
              (status, w2, s9) =
                (if d = 0
                 then (''500'',
                       Write ''Internal Server Error'' (WriteHeader StatusInternalServerError w),
                       Span_SetAttributes (Some span) [(''error'', ABool True)] s8)
                 else (''200'',
                       Write ''Work completed successfully'' (WriteHeader StatusOK w),
                       s8))
          in (case requestCounter s9 of
               None \<Rightarrow> (Some NilPointer, w2, Span_End span s9)
             | Some c \<Rightarrow>
                 let s10 = Int64Counter_Add c cx 1
                             [(''method'', AString (Method r)),
                              (''endpoint'', AString ''/work''),
                              (''status'', AString status)] s9;
                     duration = Duration_Seconds (time_Since start s10)
                 in (case requestDuration s10 of
                      None \<Rightarrow> (Some NilPointer, w2, Span_End span s10)
                    | Some h \<Rightarrow>
                        let s11 = Float64Histogram_Record h cx duration
                                    [(''method'', AString (Method r)),
                                     (''endpoint'', AString ''/work'')] s10
                        in (None, w2, Span_End span s11))))"

definition metrics_body :: "rat \<Rightarrow> rat \<Rightarrow> string" where
  \<comment> \<open>the format string of \<^verbatim>\<open>metricsHandler\<close> applied to its two arguments\<close>
  "metrics_body c m =
     ''{\"cpu_usage\": '' @ fmt_f2 c @ '', \"memory_usage\": '' @ fmt_f2 m @ ''}''"

definition metricsHandler ::
  "ResponseRecorder \<Rightarrow> Request \<Rightarrow> world \<Rightarrow> panic option \<times> ResponseRecorder \<times> world" where
  "metricsHandler w r s0 =
     (case tracer s0 of
        None \<Rightarrow> (Some NilPointer, w, s0)
      | Some t \<Rightarrow>
          let ((cx, span), s1) = tracer_Start t (ReqCtx r) ''metrics'' s0;
              start = time_Now s1;
              (u1, s2) = rand_Float64 s1;
              cpuUsage = fmul u1 100;
              (u2, s3) = rand_Float64 s2;
              memoryUsage = fmul (fmul (fmul u2 1024) 1024) 1024;
              s4 = Span_SetAttributes (Some span)
                     [(''system.cpu.usage'', AFloat cpuUsage),
                      (''system.memory.usage'', AFloat memoryUsage)] s3
          in (case requestCounter s4 of
               None \<Rightarrow> (Some NilPointer, w, Span_End span s4)
             | Some c \<Rightarrow>
                 let s5 = Int64Counter_Add c cx 1
                            [(''method'', AString (Method r)),
                             (''endpoint'', AString ''/metrics''),
                             (''status'', AString ''200'')] s4;
                     w1 = Header_Set ''Content-Type'' ''application/json'' w;
                     w2 = WriteHeader StatusOK w1;
                     w3 = Write (metrics_body cpuUsage memoryUsage) w2;
                     duration = Duration_Seconds (time_Since start s5)
                 in (case requestDuration s5 of
                      None \<Rightarrow> (Some NilPointer, w3, Span_End span s5)
                    | Some h \<Rightarrow>
                        let s6 = Float64Histogram_Record h cx duration
                                   [(''method'', AString (Method r)),
                                    (''endpoint'', AString ''/metrics'')] s5
                        in (None, w3, Span_End span s6))))"

definition telemetry_ready :: "world \<Rightarrow> bool" where
  \<comment> \<open>all four package-level handles are initialised\<close>
  "telemetry_ready s \<longleftrightarrow>
     tracer s \<noteq> None \<and> meter s \<noteq> None \<and> requestCounter s \<noteq> None \<and> requestDuration s \<noteq> None"

subsection \<open>Bootstrap: \<^verbatim>\<open>initTelemetry\<close> and \<^verbatim>\<open>main\<close>\<close>

text \<open>
  What the process finds around it: whether each constructor of the telemetry libraries
  fails, the environment variable \<^verbatim>\<open>PORT\<close>, and what \<^verbatim>\<open>http.ListenAndServe\<close> does with an
  address. A failing instrument constructor also returns a value, which the program
  assigns to its variable before it looks at the error.
\<close>

datatype listen_outcome =
    BindError error
    \<comment> \<open>the listener cannot bind: the call returns the error at once\<close>
  | Serving "Request list" "error option"
    \<comment> \<open>the listener binds and the server handles these requests, one after the other;
        then the call returns the error, or never returns\<close>

record Env =
  resource_New :: "error option"
  otlptracehttp_New :: "error option"
  otlpmetrichttp_New :: "error option"
  meter_Int64Counter :: "(Instrument option \<times> error) option"
  meter_Float64Histogram :: "(Instrument option \<times> error) option"
  os_Getenv :: "string \<Rightarrow> string"
  http_ListenAndServe :: "string \<Rightarrow> listen_outcome"
  http_DetectContentType :: "string \<Rightarrow> string"

definition Errorf_w :: "string \<Rightarrow> error \<Rightarrow> error" where
  \<comment> \<open>\<^verbatim>\<open>fmt.Errorf(prefix + "%w", err)\<close>\<close>
  "Errorf_w prefix err = (case err of Error msg \<Rightarrow> Error (prefix @ msg))"

definition error_string :: "error \<Rightarrow> string" where
  "error_string err = (case err of Error msg \<Rightarrow> msg)"

definition initTelemetry :: "Env \<Rightarrow> world \<Rightarrow> error option \<times> world" where
  "initTelemetry env s0 =
     (case resource_New env of
        Some err \<Rightarrow> (Some (Errorf_w ''failed to create resource: '' err), s0)
      | None \<Rightarrow>
         (let res = [(''service.name'', AString ''sample-app''),
                     (''service.version'', AString ''1.0.0''),
                     (''deployment.environment'', AString ''kubernetes''),
                     (''k8s.node.name'', AString ''meli-otel-test-control-plane'')]
          in case otlptracehttp_New env of
               Some err \<Rightarrow> (Some (Errorf_w ''failed to create trace exporter: '' err), s0)
             | None \<Rightarrow>
                (let traceExporter = \<lparr>exp_kind = TraceExporter, exp_insecure = True\<rparr>;
                     tracerProvider = \<lparr>prov_exporter = traceExporter, prov_resource = res\<rparr>;
                     s1 = s0\<lparr>otel_TracerProvider := Some tracerProvider\<rparr>;
                     s2 = s1\<lparr>otel_TextMapPropagator := Some TraceContext\<rparr>
                 in case otlpmetrichttp_New env of
                      Some err \<Rightarrow> (Some (Errorf_w ''failed to create metric exporter: '' err), s2)
                    | None \<Rightarrow>
                       (let metricExporter = \<lparr>exp_kind = MetricExporter, exp_insecure = True\<rparr>;
                            meterProvider = \<lparr>prov_exporter = metricExporter, prov_resource = res\<rparr>;
                            s3 = s2\<lparr>otel_MeterProvider := Some meterProvider\<rparr>;
                            s4 = s3\<lparr>tracer := Some \<lparr>tracer_name = ''sample-app'',
                                                    tracer_version = ''1.0.0''\<rparr>\<rparr>;
                            s5 = s4\<lparr>meter := Some \<lparr>meter_name = ''sample-app'',
                                                   meter_version = ''1.0.0''\<rparr>\<rparr>
                        in case meter_Int64Counter env of
                             Some (v, err) \<Rightarrow>
                               (Some (Errorf_w ''failed to create counter: '' err),
                                s5\<lparr>requestCounter := v\<rparr>)
                           | None \<Rightarrow>
                              (let s6 = s5\<lparr>requestCounter :=
                                             Some \<lparr>instr_name = ''http_requests_total'',
                                                   instr_desc = ''Total number of HTTP requests''\<rparr>\<rparr>
                               in case meter_Float64Histogram env of
                                    Some (v, err) \<Rightarrow>
                                      (Some (Errorf_w ''failed to create histogram: '' err),
                                       s6\<lparr>requestDuration := v\<rparr>)
                                  | None \<Rightarrow>
                                      (None,
                                       s6\<lparr>requestDuration :=
                                            Some \<lparr>instr_name = ''http_request_duration_seconds'',
                                                  instr_desc = ''HTTP request duration in seconds''\<rparr>\<rparr>))))))"

type_synonym Handler =
  "ResponseRecorder \<Rightarrow> Request \<Rightarrow> world \<Rightarrow> panic option \<times> ResponseRecorder \<times> world"

text \<open>
  The server behind \<^verbatim>\<open>http.ListenAndServe\<close> with the default mux. The patterns that \<open>main\<close>
  registers have no method, no host and no trailing slash, so the mux matches the path
  alone, for every method. Before matching it cleans the path as \<^verbatim>\<open>path.Clean\<close> does
  and answers a path that was not clean with a redirect to the clean one; the path of a
  \<^verbatim>\<open>CONNECT\<close> request is matched as it is. A request for \<^verbatim>\<open>*\<close> is a bad request.
\<close>

fun split_slash :: "string \<Rightarrow> string list" where
  "split_slash [] = [[]]"
| "split_slash (c # cs) =
     (if c = CHR ''/'' then [] # split_slash cs
      else (case split_slash cs of [] \<Rightarrow> [[c]] | e # es \<Rightarrow> (c # e) # es))"

fun clean_elems :: "string list \<Rightarrow> string list \<Rightarrow> string list" where
  \<comment> \<open>drop empty elements and \<open>.\<close>; \<open>..\<close> drops the element before it, if there is one\<close>
  "clean_elems st [] = st"
| "clean_elems st (e # es) =
     clean_elems (if e = [] \<or> e = ''.'' then st
                  else if e = ''..'' then butlast st
                  else st @ [e]) es"

fun join_slash :: "string list \<Rightarrow> string" where
  "join_slash [] = []"
| "join_slash (e # es) = ''/'' @ e @ join_slash es"

definition path_Clean :: "string \<Rightarrow> string" where
  \<comment> \<open>\<^verbatim>\<open>path.Clean\<close> on a path that begins with a slash\<close>
  "path_Clean p = (let np = join_slash (clean_elems [] (split_slash p))
                   in if np = [] then ''/'' else np)"

definition cleanPath :: "string \<Rightarrow> string" where
  "cleanPath p =
     (if p = [] then ''/''
      else let p1 = (if hd p \<noteq> CHR ''/'' then CHR ''/'' # p else p);
               np = path_Clean p1
           in if last p1 = CHR ''/'' \<and> np \<noteq> ''/'' then np @ ''/'' else np)"

datatype Dispatch =
    Registered Handler
  | RedirectTo string
  | NoMatch
  | BadRequest

definition mux_handler :: "(string \<times> Handler) list \<Rightarrow> Request \<Rightarrow> Dispatch" where
  "mux_handler rt r =
     (if URL r = ''*'' then BadRequest
      else if Method r = ''CONNECT''
      then (case map_of rt (URL r) of None \<Rightarrow> NoMatch | Some h \<Rightarrow> Registered h)
      else let path = cleanPath (URL r)
           in if path \<noteq> URL r then RedirectTo path
              else (case map_of rt path of None \<Rightarrow> NoMatch | Some h \<Rightarrow> Registered h))"

text \<open>
  What the client receives of a handler's run. The handlers of this program write once
  and little, so the server sends status and headers with that data: the status given to
  \<^verbatim>\<open>WriteHeader\<close>, the headers as they were then and, when the handler set no Content-Type
  and wrote data, the type detected from the data. The body of the answer to a \<^verbatim>\<open>HEAD\<close>
  request is not sent. The headers that the server adds by itself (date, length,
  connection) are not listed. A panic of a handler is recovered by the server, which
  closes the connection; it ends that request only.
\<close>

record Reply =
  reply_status :: int
  reply_header :: "string \<rightharpoonup> string list"
  reply_body :: string

datatype Served =
    Answered Reply
  | Redirected string
  | NotFound
  | BadRequested
  | Aborted

definition bodyAllowedForStatus :: "int \<Rightarrow> bool" where
  "bodyAllowedForStatus code \<longleftrightarrow> \<not> (100 \<le> code \<and> code \<le> 199) \<and> code \<noteq> 204 \<and> code \<noteq> 304"

definition deliver :: "(string \<Rightarrow> string) \<Rightarrow> Request \<Rightarrow> ResponseRecorder \<Rightarrow> Reply" where
  "deliver sniff r w =
     (let h = (case snapHeader w of None \<Rightarrow> HeaderMap w | Some h \<Rightarrow> h);
          h1 = (if bodyAllowedForStatus (Code w) \<and> h ''Content-Type'' = None
                   \<and> Header_Get h ''Content-Encoding'' = []
                   \<and> Header_Get h ''Transfer-Encoding'' = [] \<and> Body w \<noteq> []
                then h(''Content-Type'' \<mapsto> [sniff (Body w)]) else h)
      in \<lparr>reply_status = Code w, reply_header = h1,
          reply_body = (if Method r = ''HEAD'' \<or> \<not> bodyAllowedForStatus (Code w) then []
                        else Body w)\<rparr>)"

fun serve :: "(string \<times> Handler) list \<Rightarrow> (string \<Rightarrow> string) \<Rightarrow> Request list \<Rightarrow> world
                \<Rightarrow> Served list \<times> world" where
  "serve rt sniff [] s = ([], s)"
| "serve rt sniff (r # rs) s =
     (let (out, s1) =
            (case mux_handler rt r of
               Registered h \<Rightarrow>
                 (case h (NewRecorder sniff) r s of
                    (None, w, s1) \<Rightarrow> (Answered (deliver sniff r w), s1)
                  | (Some p, w, s1) \<Rightarrow> (Aborted, s1))
             | RedirectTo path \<Rightarrow> (Redirected path, s)
             | NoMatch \<Rightarrow> (NotFound, s)
             | BadRequest \<Rightarrow> (BadRequested, s));
          (outs, s2) = serve rt sniff rs s1
      in (out # outs, s2))"

record Process =
  exit_code :: "int option"
  registered :: "string list"
  listen_addr :: "string option"
  responses :: "Served list"
  final :: world

definition routes :: "(string \<times> Handler) list" where
  \<comment> \<open>the three calls of \<^verbatim>\<open>http.HandleFunc\<close> in \<^verbatim>\<open>main\<close>\<close>
  "routes = [(''/health'', healthHandler), (''/work'', workHandler),
             (''/metrics'', metricsHandler)]"

definition main :: "Env \<Rightarrow> world \<Rightarrow> Process" where
  \<comment> \<open>\<^verbatim>\<open>log.Fatalf\<close> writes the line and exits with status 1\<close>
  "main env s0 =
     (case initTelemetry env s0 of
        (Some err, s1) \<Rightarrow>
          \<lparr>exit_code = Some 1, registered = [], listen_addr = None, responses = [],
           final = log_Printf (''Failed to initialize telemetry: '' @ error_string err) s1\<rparr>
      | (None, s1) \<Rightarrow>
         (let port = (if os_Getenv env ''PORT'' = [] then ''8080'' else os_Getenv env ''PORT'');
              s2 = log_Printf (''Starting server on port '' @ port) s1
          in case http_ListenAndServe env ('':'' @ port) of
               BindError err \<Rightarrow>
                 \<lparr>exit_code = Some 1, registered = map fst routes,
                  listen_addr = None, responses = [],
                  final = log_Printf (''Server failed to start: '' @ error_string err) s2\<rparr>
             | Serving reqs fin \<Rightarrow>
                (let (ws, s3) = serve routes (http_DetectContentType env) reqs s2
                 in case fin of
                      None \<Rightarrow>
                        \<lparr>exit_code = None, registered = map fst routes,
                         listen_addr = Some ('':'' @ port), responses = ws, final = s3\<rparr>
                    | Some err \<Rightarrow>
                        \<lparr>exit_code = Some 1, registered = map fst routes,
                         listen_addr = Some ('':'' @ port), responses = ws,
                         final = log_Printf (''Server failed to start: '' @ error_string err) s3\<rparr>)))"

subsection \<open>Reading the metrics response back\<close>

text \<open>
  What a client that parses the body of \<^verbatim>\<open>/metrics\<close> as JSON obtains: the two number
  literals of the object, read by the JSON number grammar (an optional minus sign, an
  integer part without a superfluous leading zero, an optional fraction).
\<close>

definition is_digit :: "char \<Rightarrow> bool" where
  "is_digit c \<longleftrightarrow> c \<in> set ''0123456789''"

definition digit_val :: "char \<Rightarrow> nat" where
  "digit_val c = (of_char c :: nat) - 48"

definition read_nat :: "string \<Rightarrow> nat" where
  "read_nat cs = foldl (\<lambda>a c. 10 * a + digit_val c) 0 cs"

definition json_unsigned :: "string \<Rightarrow> rat option" where
  "json_unsigned t =
     (let ip = takeWhile is_digit t; rest = dropWhile is_digit t
      in if ip = [] \<or> (1 < length ip \<and> hd ip = CHR ''0'') then None
         else case rest of
                [] \<Rightarrow> Some (of_nat (read_nat ip))
              | c # fp \<Rightarrow>
                  if c = CHR ''.'' \<and> fp \<noteq> [] \<and> list_all is_digit fp
                  then Some (of_nat (read_nat ip) + of_nat (read_nat fp) / 10 ^ length fp)
                  else None)"

definition json_number :: "string \<Rightarrow> rat option" where
  "json_number t =
     (case t of
        [] \<Rightarrow> None
      | c # t' \<Rightarrow> if c = CHR ''-'' then map_option uminus (json_unsigned t')
                  else json_unsigned t)"

definition strip_prefix :: "string \<Rightarrow> string \<Rightarrow> string option" where
  "strip_prefix p t = (if take (length p) t = p then Some (drop (length p) t) else None)"

definition is_number_char :: "char \<Rightarrow> bool" where
  "is_number_char c \<longleftrightarrow> is_digit c \<or> c = CHR ''.'' \<or> c = CHR ''-''"

definition parse_metrics :: "string \<Rightarrow> (rat \<times> rat) option" where
  "parse_metrics body =
     (case strip_prefix ''{\"cpu_usage\": '' body of
        None \<Rightarrow> None
      | Some t1 \<Rightarrow>
         (case json_number (takeWhile is_number_char t1) of
            None \<Rightarrow> None
          | Some c \<Rightarrow>
             (case strip_prefix '', \"memory_usage\": '' (dropWhile is_number_char t1) of
                None \<Rightarrow> None
              | Some t2 \<Rightarrow>
                 (case json_number (takeWhile is_number_char t2) of
                    None \<Rightarrow> None
                  | Some m \<Rightarrow>
                      if dropWhile is_number_char t2 = ''}'' then Some (c, m) else None))))"

subsection \<open>A concrete process state, request and environment\<close>

definition example_world :: world where
  "example_world =
     \<lparr>tracer = Some \<lparr>tracer_name = ''sample-app'', tracer_version = ''1.0.0''\<rparr>,
      meter = Some \<lparr>meter_name = ''sample-app'', meter_version = ''1.0.0''\<rparr>,
      requestCounter = Some \<lparr>instr_name = ''http_requests_total'',
                             instr_desc = ''Total number of HTTP requests''\<rparr>,
      requestDuration = Some \<lparr>instr_name = ''http_request_duration_seconds'',
                              instr_desc = ''HTTP request duration in seconds''\<rparr>,
      otel_TracerProvider = None, otel_TextMapPropagator = None, otel_MeterProvider = None,
      rand_src = (\<lambda>i. 7 * i + 3), rand_unit = (\<lambda>i. 1 - 1 / 2 ^ 40), rand_pos = 0,
      clock = 0, sleeps = [], spans = [], counter_log = [], hist_log = [], log_lines = []\<rparr>"

definition blank_world :: world where
  \<comment> \<open>the process before \<^verbatim>\<open>main\<close> runs: every handle is \<^verbatim>\<open>nil\<close>\<close>
  "blank_world =
     \<lparr>tracer = None, meter = None, requestCounter = None, requestDuration = None,
      otel_TracerProvider = None, otel_TextMapPropagator = None, otel_MeterProvider = None,
      rand_src = (\<lambda>i. 0), rand_unit = (\<lambda>i. 0), rand_pos = 0,
      clock = 0, sleeps = [], spans = [], counter_log = [], hist_log = [], log_lines = []\<rparr>"

definition example_request :: "string \<Rightarrow> string \<Rightarrow> Request" where
  "example_request m path =
     \<lparr>Method = m, URL = path, ReqHeader = Map.empty, ReqBody = [], ReqCtx = None\<rparr>"

definition plain_sniff :: "string \<Rightarrow> string" where
  "plain_sniff buf = ''text/plain; charset=utf-8''"

definition example_env :: Env where
  "example_env =
     \<lparr>resource_New = None, otlptracehttp_New = None, otlpmetrichttp_New = None,
      meter_Int64Counter = None, meter_Float64Histogram = None,
      os_Getenv = (\<lambda>k. []),
      http_ListenAndServe = (\<lambda>addr. BindError (Error ''listen tcp :8080: bind: address already in use'')),
      http_DetectContentType = plain_sniff\<rparr>"

section \<open>What one run of each function does\<close>

text \<open>
  With the handles initialised, each handler runs to its end without a panic; the lemmas
  of this section give its result in closed form.
\<close>

lemma quo_nonneg: "0 \<le> a \<Longrightarrow> 0 < b \<Longrightarrow> quo a b = a div b"
  by (cases "a = 0") (simp_all add: quo_def)

lemma Duration_Milliseconds_ms: "Duration_Milliseconds (int k * Millisecond) = int k"
  by (simp add: Duration_Milliseconds_def Millisecond_def quo_nonneg)

lemma simulateWork_recording:
  assumes "i < length (spans s)" "\<not> span_ended (spans s ! i)"
  shows "simulateWork (Some i) s =
     s\<lparr>rand_pos := rand_pos s + 2,
       clock := clock s + int (rand_src s (rand_pos s) mod 500) * Millisecond,
       sleeps := sleeps s @ [int (rand_src s (rand_pos s) mod 500) * Millisecond],
       spans := (spans s)[i := (spans s ! i)\<lparr>span_attrs :=
           (if rand_src s (rand_pos s + 1) mod 10 = 0 then set_attrs [(''error'', ABool True)] else id)
             (set_attrs [(''work.type'', AString ''processing''),
                  (''work.duration_ms'', AInt (int (rand_src s (rand_pos s) mod 500)))]
                (span_attrs (spans s ! i)))\<rparr>],
       log_lines := log_lines s @ (if rand_src s (rand_pos s + 1) mod 10 = 0 then [''Simulated error occurred''] else [])\<rparr>"
  using assms
  by (simp add: simulateWork_def rand_Intn_def time_Sleep_def Span_SetAttributes_def log_Printf_def Let_def
       Duration_Milliseconds_ms) (simp add: Millisecond_def)

lemma simulateWork_no_span: "simulateWork None s =
     s\<lparr>rand_pos := rand_pos s + 2,
       clock := clock s + int (rand_src s (rand_pos s) mod 500) * Millisecond,
       sleeps := sleeps s @ [int (rand_src s (rand_pos s) mod 500) * Millisecond],
       log_lines := log_lines s @ (if rand_src s (rand_pos s + 1) mod 10 = 0 then [''Simulated error occurred''] else [])\<rparr>"
  by (simp add: simulateWork_def rand_Intn_def time_Sleep_def Span_SetAttributes_def log_Printf_def Let_def)
     (simp add: Millisecond_def)

lemma healthHandler_run:
  assumes "tracer s = Some t" "requestCounter s = Some c" "requestDuration s = Some h"
  shows "healthHandler w r s =
    (None, Write ''OK'' (WriteHeader StatusOK w),
     s\<lparr>spans := spans s @ [\<lparr>span_name = ''health_check'', span_parent = ReqCtx r,
                              span_attrs = Map.empty, span_ended = True\<rparr>],
       counter_log := counter_log s @
          [(c, Some (length (spans s)), 1,
            [(''method'', AString (Method r)), (''endpoint'', AString ''/health''),
             (''status'', AString ''200'')])],
       hist_log := hist_log s @
          [(h, Some (length (spans s)), Duration_Seconds 0,
            [(''method'', AString (Method r)), (''endpoint'', AString ''/health'')])]\<rparr>)"
  using assms
  by (simp add: healthHandler_def Let_def tracer_Start_def time_Now_def time_Since_def
        Span_End_def Int64Counter_Add_def Float64Histogram_Record_def)

lemma workHandler_run:
  assumes "tracer s = Some t" "requestCounter s = Some c" "requestDuration s = Some h"
  shows "workHandler w r s =
    (let p = rand_pos s; n = length (spans s);
         uid = rand_src s p mod 100; rid = rand_src s (p + 1) mod 10000;
         ms = rand_src s (p + 2) mod 500; e = rand_src s (p + 3) mod 10;
         d = rand_src s (p + 4) mod 20
     in (None,
      (if d = 0 then Write ''Internal Server Error'' (WriteHeader StatusInternalServerError w)
       else Write ''Work completed successfully'' (WriteHeader StatusOK w)),
      s\<lparr>rand_pos := p + 5,
        clock := clock s + int ms * Millisecond,
        sleeps := sleeps s @ [int ms * Millisecond],
        spans := spans s @
          [\<lparr>span_name = ''do_work'', span_parent = ReqCtx r,
            span_attrs = (if d = 0 then set_attrs [(''error'', ABool True)] else id)
               (set_attrs [(''user.id'', AString (''user-'' @ Itoa (int uid))),
                           (''request.id'', AString (''req-'' @ Itoa (int rid)))] Map.empty),
            span_ended = True\<rparr>,
           \<lparr>span_name = ''nested_operation'', span_parent = Some n,
            span_attrs = (if e = 0 then set_attrs [(''error'', ABool True)] else id)
               (set_attrs [(''work.type'', AString ''processing''),
                           (''work.duration_ms'', AInt (int ms))] Map.empty),
            span_ended = True\<rparr>],
        counter_log := counter_log s @
          [(c, Some n, 1,
            [(''method'', AString (Method r)), (''endpoint'', AString ''/work''),
             (''status'', AString (if d = 0 then ''500'' else ''200''))])],
        hist_log := hist_log s @
          [(h, Some n, Duration_Seconds (int ms * Millisecond),
            [(''method'', AString (Method r)), (''endpoint'', AString ''/work'')])],
        log_lines := log_lines s @ (if e = 0 then [''Simulated error occurred''] else [])\<rparr>))"
proof -
  have pos: "\<And>k::nat. k + 2 = Suc (Suc k)" "\<And>k::nat. k + 3 = Suc (Suc (Suc k))"
    "\<And>k::nat. k + 4 = Suc (Suc (Suc (Suc k)))" "\<And>k::nat. k + 5 = Suc (Suc (Suc (Suc (Suc k))))"
    by simp_all
  show ?thesis
    using assms
    by (simp add: workHandler_def Let_def tracer_Start_def time_Now_def time_Since_def rand_Intn_def
        Span_SetAttributes_def simulateWork_recording Span_End_def nth_append
        Int64Counter_Add_def Float64Histogram_Record_def list_update_append pos)
qed

lemma metricsHandler_run:
  assumes "tracer s = Some t" "requestCounter s = Some c" "requestDuration s = Some h"
  shows "metricsHandler w r s =
    (let p = rand_pos s; n = length (spans s);
         cpuUsage = fmul (rand_unit s p) 100;
         memoryUsage = fmul (fmul (fmul (rand_unit s (p + 1)) 1024) 1024) 1024
     in (None,
      Write (metrics_body cpuUsage memoryUsage)
        (WriteHeader StatusOK (Header_Set ''Content-Type'' ''application/json'' w)),
      s\<lparr>rand_pos := p + 2,
        spans := spans s @
          [\<lparr>span_name = ''metrics'', span_parent = ReqCtx r,
            span_attrs = set_attrs [(''system.cpu.usage'', AFloat cpuUsage),
                                    (''system.memory.usage'', AFloat memoryUsage)] Map.empty,
            span_ended = True\<rparr>],
        counter_log := counter_log s @
          [(c, Some n, 1,
            [(''method'', AString (Method r)), (''endpoint'', AString ''/metrics''),
             (''status'', AString ''200'')])],
        hist_log := hist_log s @
          [(h, Some n, Duration_Seconds 0,
            [(''method'', AString (Method r)), (''endpoint'', AString ''/metrics'')])]\<rparr>))"
  using assms
  by (simp add: metricsHandler_def Let_def tracer_Start_def time_Now_def time_Since_def rand_Float64_def
        Span_SetAttributes_def Span_End_def nth_append
        Int64Counter_Add_def Float64Histogram_Record_def list_update_append)

lemma ready_handles:
  assumes "telemetry_ready s"
  obtains t c h where "tracer s = Some t" "requestCounter s = Some c" "requestDuration s = Some h"
  using assms by (auto simp: telemetry_ready_def)

lemma ready_rand_src_update: "telemetry_ready (s\<lparr>rand_src := f\<rparr>) = telemetry_ready s"
  by (simp add: telemetry_ready_def)

lemma example_ready: "telemetry_ready example_world"
  by (simp add: telemetry_ready_def example_world_def)

lemma fresh_recorder: "\<not> wroteHeader (NewRecorder sniff)" "Body (NewRecorder sniff) = []"
  by (simp_all add: NewRecorder_def)

lemma Write_after_WriteHeader:
  assumes "\<not> wroteHeader w"
  shows "Write buf (WriteHeader code w) =
           w\<lparr>Code := code, wroteHeader := True, snapHeader := Some (HeaderMap w),
             Body := Body w @ buf\<rparr>"
  using assms by (simp add: Write_def WriteHeader_def)

lemma workHandler_fields:
  assumes "telemetry_ready s" "\<not> wroteHeader w"
  shows "fst (workHandler w r s) = None"
    and "Code (fst (snd (workHandler w r s))) =
           (if rand_src s (rand_pos s + 4) mod 20 = 0 then 500 else 200)"
    and "Body (fst (snd (workHandler w r s))) =
           Body w @ (if rand_src s (rand_pos s + 4) mod 20 = 0 then ''Internal Server Error''
                     else ''Work completed successfully'')"
    and "HeaderMap (fst (snd (workHandler w r s))) = HeaderMap w"
    and "snapHeader (fst (snd (workHandler w r s))) = Some (HeaderMap w)"
proof -
  from assms(1) obtain t c h where
    h: "tracer s = Some t" "requestCounter s = Some c" "requestDuration s = Some h"
    by (rule ready_handles)
  show "fst (workHandler w r s) = None"
    by (simp add: workHandler_run [OF h] Let_def)
  show "Code (fst (snd (workHandler w r s))) =
          (if rand_src s (rand_pos s + 4) mod 20 = 0 then 500 else 200)"
    using assms(2)
    by (simp add: workHandler_run [OF h] Let_def Write_after_WriteHeader StatusOK_def
          StatusInternalServerError_def)
  show "Body (fst (snd (workHandler w r s))) =
           Body w @ (if rand_src s (rand_pos s + 4) mod 20 = 0 then ''Internal Server Error''
                     else ''Work completed successfully'')"
    using assms(2)
    by (simp add: workHandler_run [OF h] Let_def Write_after_WriteHeader)
  show "HeaderMap (fst (snd (workHandler w r s))) = HeaderMap w"
    using assms(2)
    by (simp add: workHandler_run [OF h] Let_def Write_after_WriteHeader)
  show "snapHeader (fst (snd (workHandler w r s))) = Some (HeaderMap w)"
    using assms(2)
    by (simp add: workHandler_run [OF h] Let_def Write_after_WriteHeader)
qed

lemma workHandler_spans:
  assumes "telemetry_ready s"
  shows "spans (snd (snd (workHandler w r s))) =
      (let p = rand_pos s; n = length (spans s);
           uid = rand_src s p mod 100; rid = rand_src s (p + 1) mod 10000;
           ms = rand_src s (p + 2) mod 500; e = rand_src s (p + 3) mod 10;
           d = rand_src s (p + 4) mod 20
       in spans s @
          [\<lparr>span_name = ''do_work'', span_parent = ReqCtx r,
            span_attrs = (if d = 0 then set_attrs [(''error'', ABool True)] else id)
               (set_attrs [(''user.id'', AString (''user-'' @ Itoa (int uid))),
                           (''request.id'', AString (''req-'' @ Itoa (int rid)))] Map.empty),
            span_ended = True\<rparr>,
           \<lparr>span_name = ''nested_operation'', span_parent = Some n,
            span_attrs = (if e = 0 then set_attrs [(''error'', ABool True)] else id)
               (set_attrs [(''work.type'', AString ''processing''),
                           (''work.duration_ms'', AInt (int ms))] Map.empty),
            span_ended = True\<rparr>])"
proof -
  from assms(1) obtain t c h where
    h: "tracer s = Some t" "requestCounter s = Some c" "requestDuration s = Some h"
    by (rule ready_handles)
  show ?thesis
    by (simp add: workHandler_run [OF h] Let_def)
qed

lemma workHandler_counter_log:
  assumes "telemetry_ready s" "requestCounter s = Some c"
  shows "counter_log (snd (snd (workHandler w r s))) =
           counter_log s @
             [(c, Some (length (spans s)), 1,
               [(''method'', AString (Method r)), (''endpoint'', AString ''/work''),
                (''status'', AString (if rand_src s (rand_pos s + 4) mod 20 = 0 then ''500''
                                      else ''200''))])]"
proof -
  from assms(1) obtain t h where "tracer s = Some t" "requestDuration s = Some h"
    by (auto simp: telemetry_ready_def)
  then show ?thesis
    using assms(2) by (simp add: workHandler_run Let_def)
qed

lemma healthHandler_writer:
  assumes "telemetry_ready s"
  shows "fst (healthHandler w r s) = None"
    and "fst (snd (healthHandler w r s)) = Write ''OK'' (WriteHeader StatusOK w)"
proof -
  from assms(1) obtain t c h where
    h: "tracer s = Some t" "requestCounter s = Some c" "requestDuration s = Some h"
    by (rule ready_handles)
  show "fst (healthHandler w r s) = None"
    by (simp add: healthHandler_run [OF h])
  show "fst (snd (healthHandler w r s)) = Write ''OK'' (WriteHeader StatusOK w)"
    by (simp add: healthHandler_run [OF h])
qed

lemma metricsHandler_writer:
  assumes "telemetry_ready s"
  shows "fst (metricsHandler w r s) = None"
    and "fst (snd (metricsHandler w r s)) =
           Write (metrics_body (fmul (rand_unit s (rand_pos s)) 100)
                    (fmul (fmul (fmul (rand_unit s (rand_pos s + 1)) 1024) 1024) 1024))
             (WriteHeader StatusOK (Header_Set ''Content-Type'' ''application/json'' w))"
proof -
  from assms(1) obtain t c h where
    h: "tracer s = Some t" "requestCounter s = Some c" "requestDuration s = Some h"
    by (rule ready_handles)
  show "fst (metricsHandler w r s) = None"
    by (simp add: metricsHandler_run [OF h] Let_def)
  show "fst (snd (metricsHandler w r s)) =
           Write (metrics_body (fmul (rand_unit s (rand_pos s)) 100)
                    (fmul (fmul (fmul (rand_unit s (rand_pos s + 1)) 1024) 1024) 1024))
             (WriteHeader StatusOK (Header_Set ''Content-Type'' ''application/json'' w))"
    by (simp add: metricsHandler_run [OF h] Let_def)
qed

lemma workHandler_writer:
  assumes "telemetry_ready s"
  shows "fst (snd (workHandler w r s)) =
           (if rand_src s (rand_pos s + 4) mod 20 = 0
            then Write ''Internal Server Error'' (WriteHeader StatusInternalServerError w)
            else Write ''Work completed successfully'' (WriteHeader StatusOK w))"
proof -
  from assms(1) obtain t c h where
    "tracer s = Some t" "requestCounter s = Some c" "requestDuration s = Some h"
    by (rule ready_handles)
  then show ?thesis
    by (simp add: workHandler_run Let_def)
qed

lemma workHandler_no_panic:
  assumes "telemetry_ready s"
  shows "fst (workHandler w r s) = None"
proof -
  from assms(1) obtain t c h where
    "tracer s = Some t" "requestCounter s = Some c" "requestDuration s = Some h"
    by (rule ready_handles)
  then show ?thesis
    by (simp only: workHandler_run Let_def fst_conv)
qed

lemma handlers_keep_handles:
  assumes "telemetry_ready s" "handler \<in> {healthHandler, workHandler, metricsHandler}"
  shows "tracer (snd (snd (handler w r s))) = tracer s"
    and "meter (snd (snd (handler w r s))) = meter s"
    and "requestCounter (snd (snd (handler w r s))) = requestCounter s"
    and "requestDuration (snd (snd (handler w r s))) = requestDuration s"
proof -
  from assms(1) obtain t c h where
    h: "tracer s = Some t" "requestCounter s = Some c" "requestDuration s = Some h"
    by (rule ready_handles)
  note run = healthHandler_run [OF h] workHandler_run [OF h] metricsHandler_run [OF h]
  from assms(2) have "handler = healthHandler \<or> handler = workHandler \<or> handler = metricsHandler"
    by blast
  then show "tracer (snd (snd (handler w r s))) = tracer s"
    and "meter (snd (snd (handler w r s))) = meter s"
    and "requestCounter (snd (snd (handler w r s))) = requestCounter s"
    and "requestDuration (snd (snd (handler w r s))) = requestDuration s"
    by (auto simp: run Let_def)
qed

lemma handler_counter_method:
  assumes "telemetry_ready s" "handler \<in> {healthHandler, workHandler, metricsHandler}"
  shows "\<exists>c cx ep st. last (counter_log (snd (snd (handler w r s)))) =
           (c, cx, 1, [(''method'', AString (Method r)), (''endpoint'', AString ep),
                       (''status'', AString st)])"
proof -
  from assms(1) obtain t c h where
    h: "tracer s = Some t" "requestCounter s = Some c" "requestDuration s = Some h"
    by (rule ready_handles)
  note run = healthHandler_run [OF h] workHandler_run [OF h] metricsHandler_run [OF h]
  from assms(2) consider "handler = healthHandler" | "handler = workHandler"
    | "handler = metricsHandler" by blast
  then show ?thesis
  proof cases
    case 1
    then show ?thesis by (simp add: run(1))
  next
    case 2
    then show ?thesis by (simp add: run(2) Let_def)
  next
    case 3
    then show ?thesis by (simp add: run(3) Let_def)
  qed
qed

lemma handler_writer_ignores_method:
  assumes "telemetry_ready s" "handler \<in> {healthHandler, workHandler, metricsHandler}"
  shows "fst (snd (handler w (r\<lparr>Method := m\<rparr>) s)) = fst (snd (handler w r s))"
    and "fst (handler w r s) = None"
proof -
  from assms(2) have "handler = healthHandler \<or> handler = workHandler \<or> handler = metricsHandler"
    by blast
  then show "fst (snd (handler w (r\<lparr>Method := m\<rparr>) s)) = fst (snd (handler w r s))"
    and "fst (handler w r s) = None"
    by (auto simp: healthHandler_writer [OF assms(1)] workHandler_writer [OF assms(1)]
          metricsHandler_writer [OF assms(1)] workHandler_no_panic [OF assms(1)])
qed

lemma routes_cases:
  assumes "map_of routes p = Some hf"
  shows "hf \<in> {healthHandler, workHandler, metricsHandler}"
  using assms by (auto simp: routes_def split: if_splits)

lemma initTelemetry_error_iff:
  "fst (initTelemetry env s) \<noteq> None \<longleftrightarrow>
     resource_New env \<noteq> None \<or> otlptracehttp_New env \<noteq> None \<or> otlpmetrichttp_New env \<noteq> None
     \<or> meter_Int64Counter env \<noteq> None \<or> meter_Float64Histogram env \<noteq> None"
  by (simp add: initTelemetry_def Let_def split: option.splits prod.splits)

lemma initTelemetry_success:
  assumes "fst (initTelemetry env s) = None"
  shows "telemetry_ready (snd (initTelemetry env s))"
    and "tracer (snd (initTelemetry env s)) =
           Some \<lparr>tracer_name = ''sample-app'', tracer_version = ''1.0.0''\<rparr>"
    and "meter (snd (initTelemetry env s)) =
           Some \<lparr>meter_name = ''sample-app'', meter_version = ''1.0.0''\<rparr>"
    and "requestCounter (snd (initTelemetry env s)) =
           Some \<lparr>instr_name = ''http_requests_total'',
                 instr_desc = ''Total number of HTTP requests''\<rparr>"
    and "requestDuration (snd (initTelemetry env s)) =
           Some \<lparr>instr_name = ''http_request_duration_seconds'',
                 instr_desc = ''HTTP request duration in seconds''\<rparr>"
  using assms
  by (simp_all add: initTelemetry_def Let_def telemetry_ready_def split: option.splits prod.splits)

lemma main_init_failure:
  assumes "fst (initTelemetry env s) = Some err"
  shows "main env s =
           \<lparr>exit_code = Some 1, registered = [], listen_addr = None, responses = [],
            final = log_Printf (''Failed to initialize telemetry: '' @ error_string err)
                      (snd (initTelemetry env s))\<rparr>"
  using assms by (cases "initTelemetry env s") (simp add: main_def)

lemma initTelemetry_logs:
  "log_lines (snd (initTelemetry env s)) = log_lines s"
  "counter_log (snd (initTelemetry env s)) = counter_log s"
  "hist_log (snd (initTelemetry env s)) = hist_log s"
  "spans (snd (initTelemetry env s)) = spans s"
  by (simp_all add: initTelemetry_def Let_def split: option.splits prod.splits)

lemma main_bind_failure:
  assumes "fst (initTelemetry env s) = None"
    and "http_ListenAndServe env ('':'' @ (if os_Getenv env ''PORT'' = [] then ''8080''
                                          else os_Getenv env ''PORT'')) = BindError err"
  shows "main env s =
           \<lparr>exit_code = Some 1, registered = [''/health'', ''/work'', ''/metrics''],
            listen_addr = None, responses = [],
            final = log_Printf (''Server failed to start: '' @ error_string err)
                     (log_Printf (''Starting server on port '' @
                          (if os_Getenv env ''PORT'' = [] then ''8080'' else os_Getenv env ''PORT''))
                        (snd (initTelemetry env s)))\<rparr>"
  using assms by (cases "initTelemetry env s") (simp add: main_def Let_def routes_def)

text \<open>
  Every request that \<open>main\<close> serves finds the handles initialised: \<open>initTelemetry\<close> has
  set them, and no handler changes them.
\<close>

lemma handler_keeps_ready:
  assumes "telemetry_ready s" "handler \<in> {healthHandler, workHandler, metricsHandler}"
  shows "telemetry_ready (snd (snd (handler w r s)))"
  using assms(1) handlers_keep_handles [OF assms, of w r]
  by (simp add: telemetry_ready_def)

lemma clean_registered_paths:
  "cleanPath ''/health'' = ''/health''" "cleanPath ''/work'' = ''/work''"
  "cleanPath ''/metrics'' = ''/metrics''"
  by (simp_all add: cleanPath_def path_Clean_def)

lemma mux_registered:
  assumes "mux_handler routes r = Registered hf"
  shows "hf \<in> {healthHandler, workHandler, metricsHandler}"
proof -
  from assms obtain p where "map_of routes p = Some hf"
    by (auto simp: mux_handler_def Let_def split: if_splits option.splits)
  then show ?thesis by (rule routes_cases)
qed

lemma serve_ready:
  assumes "telemetry_ready s"
  shows "telemetry_ready (snd (serve routes sniff rs s))"
  using assms
proof (induction rs arbitrary: s)
  case Nil
  then show ?case by simp
next
  case (Cons r rs)
  define st where
    "st = (case mux_handler routes r of
             Registered h \<Rightarrow>
               (case h (NewRecorder sniff) r s of
                  (None, w, s1) \<Rightarrow> (Answered (deliver sniff r w), s1)
                | (Some p, w, s1) \<Rightarrow> (Aborted, s1))
           | RedirectTo path \<Rightarrow> (Redirected path, s)
           | NoMatch \<Rightarrow> (NotFound, s)
           | BadRequest \<Rightarrow> (BadRequested, s))"
  have "telemetry_ready (snd st)"
  proof (cases "mux_handler routes r")
    case (Registered hf)
    then have "hf \<in> {healthHandler, workHandler, metricsHandler}" by (rule mux_registered)
    from handler_keeps_ready [OF Cons.prems this, of "NewRecorder sniff" r]
    show ?thesis using Registered by (auto simp: st_def split: prod.splits option.splits)
  next
    case (RedirectTo path)
    then show ?thesis using Cons.prems by (simp add: st_def)
  next
    case NoMatch
    then show ?thesis using Cons.prems by (simp add: st_def)
  next
    case BadRequest
    then show ?thesis using Cons.prems by (simp add: st_def)
  qed
  from Cons.IH [OF this] show ?case
    by (simp add: st_def split_beta Let_def)
qed

lemma main_serves_with_handles:
  assumes "fst (initTelemetry env s0) = None"
  shows "telemetry_ready
           (snd (serve routes sniff rs
                   (log_Printf msg (snd (initTelemetry env s0)))))"
proof -
  have "telemetry_ready (log_Printf msg (snd (initTelemetry env s0)))"
    using initTelemetry_success(1) [OF assms]
    by (simp add: telemetry_ready_def log_Printf_def)
  then show ?thesis by (rule serve_ready)
qed

text \<open>
  What the server sends for a request to \<open>/health\<close>, for every method: status 200, the
  detected Content-Type, and the body \<open>OK\<close> unless the method is \<open>HEAD\<close>. A path that is
  not clean is redirected, except for \<open>CONNECT\<close>.
\<close>

lemma served_health:
  assumes "telemetry_ready s"
  shows "fst (serve routes sniff [r\<lparr>Method := m, URL := ''/health''\<rparr>] s) =
           [Answered \<lparr>reply_status = 200,
                      reply_header = [''Content-Type'' \<mapsto> [sniff ''OK'']],
                      reply_body = (if m = ''HEAD'' then [] else ''OK'')\<rparr>]"
proof -
  let ?r = "r\<lparr>Method := m, URL := ''/health''\<rparr>"
  have d: "mux_handler routes ?r = Registered healthHandler"
    by (simp add: mux_handler_def clean_registered_paths routes_def)
  have w: "fst (healthHandler (NewRecorder sniff) ?r s) = None"
    "fst (snd (healthHandler (NewRecorder sniff) ?r s)) =
       (NewRecorder sniff)\<lparr>Code := StatusOK, wroteHeader := True,
          snapHeader := Some (HeaderMap (NewRecorder sniff)),
          Body := Body (NewRecorder sniff) @ ''OK''\<rparr>"
    by (simp_all add: healthHandler_writer [OF assms] Write_after_WriteHeader fresh_recorder)
  show ?thesis
    using w
    by (simp add: d split_beta deliver_def NewRecorder_def StatusOK_def bodyAllowedForStatus_def
          Header_Get_def split: prod.splits option.splits)
qed

lemma served_unclean_path:
  "fst (serve routes sniff [r\<lparr>Method := ''GET'', URL := ''//health''\<rparr>] s) = [Redirected ''/health'']"
  "fst (serve routes sniff [r\<lparr>Method := ''CONNECT'', URL := ''//health''\<rparr>] s) = [NotFound]"
  "fst (serve routes sniff [r\<lparr>Method := ''GET'', URL := ''/health/''\<rparr>] s) = [NotFound]"
  "fst (serve routes sniff [r\<lparr>Method := ''GET'', URL := ''/a/../work/./''\<rparr>] s) = [Redirected ''/work/'']"
  "fst (serve routes sniff [r\<lparr>Method := ''OPTIONS'', URL := ''*''\<rparr>] s) = [BadRequested]"
  by (simp_all add: mux_handler_def cleanPath_def path_Clean_def routes_def)

section \<open>Rounding to float64\<close>

text \<open>
  The binade of a positive rational, the distance of a rounded value from its argument,
  and the two facts the metrics handler needs: a product with a power of two is exact,
  and the product of a float64 below 1 with 100 stays below 100.
\<close>

lemma pow2_powi: "pow2 e = 2 powi e"
  by (simp add: pow2_def power_int_def inverse_eq_divide power_one_over)

lemma pow2_pos [simp]: "0 < pow2 e"
  by (simp add: pow2_powi)

lemma pow2_add: "pow2 (a + b) = pow2 a * pow2 b"
  by (simp add: pow2_powi power_int_add)

lemma pow2_mono: "a \<le> b \<Longrightarrow> pow2 a \<le> pow2 b"
  by (simp add: pow2_powi power_int_increasing)

lemma pow2_strict_mono: "a < b \<Longrightarrow> pow2 a < pow2 b"
  by (simp add: pow2_powi power_int_strict_increasing)

lemma pow2_less_iff: "pow2 a < pow2 b \<longleftrightarrow> a < b"
  using pow2_strict_mono [of a b] pow2_mono [of b a] by (cases "a < b") auto

lemma pow2_le_iff: "pow2 a \<le> pow2 b \<longleftrightarrow> a \<le> b"
  using pow2_strict_mono [of b a] pow2_mono [of a b] by (cases "a \<le> b") auto

lemma pow2_nat: "0 \<le> e \<Longrightarrow> pow2 e = of_int (2 ^ nat e)"
  by (simp add: pow2_def)

lemma binade_spec:
  assumes "0 < x"
  shows "pow2 (binade x) \<le> x" and "x < pow2 (binade x + 1)"
proof -
  have "pow2 (binade x) \<le> x \<and> x < pow2 (binade x + 1)"
  proof (cases "1 \<le> x")
    case True
    define n where "n = \<lfloor>x\<rfloor>"
    have n: "0 < n" using True by (simp add: n_def)
    have b1: "1 \<le> bitlen n" using n by (simp add: bitlen_alt_def)
    from bitlen_bounds [OF n] have lo: "2 ^ nat (bitlen n - 1) \<le> n" and hi: "n < 2 ^ nat (bitlen n)"
      by simp_all
    have e: "binade x = bitlen n - 1" using True by (simp add: binade_def n_def)
    have "pow2 (bitlen n - 1) = of_int (2 ^ nat (bitlen n - 1))"
      using b1 by (simp add: pow2_nat)
    also have "\<dots> \<le> of_int n" using lo by (simp only: of_int_le_iff)
    also have "\<dots> \<le> x" by (simp add: n_def)
    finally have A: "pow2 (binade x) \<le> x" by (simp add: e)
    have "n + 1 \<le> 2 ^ nat (bitlen n)" using hi by simp
    then have "(of_int (n + 1) :: rat) \<le> of_int (2 ^ nat (bitlen n))"
      by (simp only: of_int_le_iff)
    moreover have "x < of_int (n + 1)" using floor_correct [of x] by (simp add: n_def)
    ultimately have "x < of_int (2 ^ nat (bitlen n))" by linarith
    also have "\<dots> = pow2 (bitlen n)" using b1 by (simp add: pow2_nat)
    finally have "x < pow2 (binade x + 1)" by (simp add: e)
    with A show ?thesis by simp
  next
    case False
    then have x1: "x < 1" by simp
    define y where "y = 1 / x"
    have y1: "1 < y" using assms x1 by (simp add: y_def)
    define m where "m = \<lceil>y\<rceil> - 1"
    have my: "of_int m < y" "y \<le> of_int m + 1"
      by (simp_all add: m_def) linarith+
    have m: "0 < m" using y1 my(2) by linarith
    have b1: "1 \<le> bitlen m" using m by (simp add: bitlen_alt_def)
    from bitlen_bounds [OF m] have lo: "2 ^ nat (bitlen m - 1) \<le> m" and hi: "m < 2 ^ nat (bitlen m)"
      by simp_all
    have e: "binade x = - bitlen m" using False by (simp add: binade_def m_def y_def)
    have "m + 1 \<le> 2 ^ nat (bitlen m)" using hi by simp
    then have "(of_int (m + 1) :: rat) \<le> of_int (2 ^ nat (bitlen m))"
      by (simp only: of_int_le_iff)
    with my(2) have "y \<le> of_int (2 ^ nat (bitlen m))" by simp
    also have "\<dots> = pow2 (bitlen m)" using b1 by (simp add: pow2_nat)
    finally have "1 / x \<le> pow2 (bitlen m)" by (simp add: y_def)
    then have "1 \<le> pow2 (bitlen m) * x" using assms by (simp add: field_simps)
    moreover have "pow2 (- bitlen m) * pow2 (bitlen m) = 1"
      using pow2_add [of "- bitlen m" "bitlen m"] by (simp add: pow2_def)
    ultimately have A: "pow2 (- bitlen m) \<le> x"
      by (metis mult.commute mult.left_commute mult_le_cancel_left_pos mult.right_neutral pow2_pos)
    have "(of_int (2 ^ nat (bitlen m - 1)) :: rat) \<le> of_int m" using lo by (simp only: of_int_le_iff)
    with my(1) have "of_int (2 ^ nat (bitlen m - 1)) < y" by linarith
    moreover have "pow2 (bitlen m - 1) = of_int (2 ^ nat (bitlen m - 1))"
      using b1 by (simp add: pow2_nat)
    ultimately have "pow2 (bitlen m - 1) < 1 / x" by (simp add: y_def)
    then have "pow2 (bitlen m - 1) * x < 1" using assms by (simp add: field_simps)
    moreover have "pow2 (- bitlen m + 1) * pow2 (bitlen m - 1) = 1"
      using pow2_add [of "- bitlen m + 1" "bitlen m - 1"] by (simp add: pow2_def)
    ultimately have "x < pow2 (- bitlen m + 1)"
      by (metis mult.commute mult.left_commute mult_less_cancel_left_pos mult.right_neutral pow2_pos)
    with A show ?thesis by (simp add: e)
  qed
  then show "pow2 (binade x) \<le> x" and "x < pow2 (binade x + 1)" by simp_all
qed

lemma binade_unique:
  assumes "pow2 e \<le> x" "x < pow2 (e + 1)"
  shows "binade x = e"
proof -
  have x: "0 < x" using assms(1) pow2_pos [of e] by linarith
  from binade_spec [OF x] assms have "pow2 e < pow2 (binade x + 1)" "pow2 (binade x) < pow2 (e + 1)"
    by linarith+
  then show ?thesis by (simp add: pow2_less_iff)
qed

lemma rne_close: "\<bar>of_int (rne y) - y\<bar> \<le> 1 / 2"
proof -
  have "of_int \<lfloor>y\<rfloor> \<le> y" "y < of_int \<lfloor>y\<rfloor> + 1" by linarith+
  then show ?thesis
    by (auto simp: rne_def Let_def)
qed

lemma rne_of_int [simp]: "rne (of_int k) = k"
  by (simp add: rne_def)

lemma rne_le: "y \<le> of_int N \<Longrightarrow> rne y \<le> N"
proof -
  assume a: "y \<le> of_int N"
  have "of_int (rne y) \<le> y + 1 / 2" using rne_close [of y] by linarith
  then have "(of_int (rne y) :: rat) < of_int (N + 1)" using a by simp
  then have "rne y < N + 1" by (simp only: of_int_less_iff)
  then show ?thesis by simp
qed

lemma rne_ge: "of_int N \<le> y \<Longrightarrow> N \<le> rne y"
proof -
  assume a: "of_int N \<le> y"
  have "y - 1 / 2 \<le> of_int (rne y)" using rne_close [of y] by linarith
  then have "(of_int (N - 1) :: rat) < of_int (rne y)" using a by simp
  then have "N - 1 < rne y" by (simp only: of_int_less_iff)
  then show ?thesis by simp
qed

lemma rne_less: "y < of_int N - 1 / 2 \<Longrightarrow> rne y < N"
proof -
  assume a: "y < of_int N - 1 / 2"
  have "of_int (rne y) \<le> y + 1 / 2" using rne_close [of y] by linarith
  then have "(of_int (rne y) :: rat) < of_int N" using a by simp
  then show ?thesis by (simp only: of_int_less_iff)
qed


lemma fl64_nonneg: "0 \<le> x \<Longrightarrow> 0 \<le> fl64 x"
proof -
  assume x: "0 \<le> x"
  have "0 \<le> rne (\<bar>x\<bar> / pow2 (ulp_exp x))"
    by (rule rne_ge) (simp add: less_imp_le)
  then show ?thesis
    using x by (simp add: fl64_def sgn_if less_imp_le)
qed

lemma fl64_pos_eq: "0 < x \<Longrightarrow> fl64 x = of_int (rne (x / pow2 (ulp_exp x))) * pow2 (ulp_exp x)"
  by (simp add: fl64_def)

lemma fl64_le_grid:
  assumes "0 < x" "x \<le> of_int N * pow2 (ulp_exp x)"
  shows "fl64 x \<le> of_int N * pow2 (ulp_exp x)"
proof -
  have "x / pow2 (ulp_exp x) \<le> of_int N"
    using assms(2) by (simp add: pos_divide_le_eq)
  then have "rne (x / pow2 (ulp_exp x)) \<le> N" by (rule rne_le)
  then have "(of_int (rne (x / pow2 (ulp_exp x))) :: rat) \<le> of_int N"
    by (simp only: of_int_le_iff)
  then show ?thesis
    using assms(1) by (simp add: fl64_pos_eq)
qed

lemma abs_pow2 [simp]: "\<bar>pow2 n\<bar> = pow2 n"
  by (simp add: abs_of_pos)

lemma fl64_exact:
  assumes "x = of_int k * pow2 j" "ulp_exp x \<le> j"
  shows "fl64 x = x"
proof (cases "x = 0")
  case True
  then show ?thesis by (simp add: fl64_def)
next
  case False
  define q where "q = pow2 (ulp_exp x)"
  define d where "d = j - ulp_exp x"
  have qpos: "0 < q" by (simp add: q_def)
  have d: "0 \<le> d" using assms(2) by (simp add: d_def)
  have "pow2 j = pow2 d * pow2 (ulp_exp x)"
    using pow2_add [of d "ulp_exp x"] by (simp add: d_def)
  then have j: "pow2 j = of_int (2 ^ nat d) * q"
    using d by (simp add: q_def pow2_nat)
  have ax: "\<bar>x\<bar> = of_int (\<bar>k\<bar> * 2 ^ nat d) * q"
    using qpos by (simp add: assms(1) j abs_mult)
  then have "\<bar>x\<bar> / q = of_int (\<bar>k\<bar> * 2 ^ nat d)"
    using qpos by simp
  then have "rne (\<bar>x\<bar> / q) = \<bar>k\<bar> * 2 ^ nat d"
    by (simp only: rne_of_int)
  then have "fl64 x = sgn x * of_int (\<bar>k\<bar> * 2 ^ nat d) * q"
    using False by (simp add: fl64_def q_def)
  also have "\<dots> = sgn x * \<bar>x\<bar>"
    by (simp only: ax mult.assoc)
  also have "\<dots> = x" by (simp add: sgn_mult_abs)
  finally show ?thesis .
qed

lemma float64_grid:
  assumes "is_float64 x" "x \<noteq> 0"
  obtains k where "x = of_int k * pow2 (ulp_exp x)"
proof (cases "0 < x")
  case True
  with assms have "x = of_int (rne (\<bar>x\<bar> / pow2 (ulp_exp x))) * pow2 (ulp_exp x)"
    by (simp add: is_float64_def fl64_def)
  then show ?thesis by (rule that)
next
  case False
  with assms have "x = of_int (- rne (\<bar>x\<bar> / pow2 (ulp_exp x))) * pow2 (ulp_exp x)"
    by (simp add: is_float64_def fl64_def sgn_if)
  then show ?thesis by (rule that)
qed

lemma binade_scale:
  assumes "0 < x"
  shows "binade (x * pow2 n) = binade x + n"
proof (rule binade_unique)
  from binade_spec [OF assms]
  show "pow2 (binade x + n) \<le> x * pow2 n" "x * pow2 n < pow2 (binade x + n + 1)"
    using pow2_add [of "binade x" n] pow2_add [of "binade x + 1" n]
    by (simp_all add: add.commute add.left_commute)
qed

lemma float64_scale:
  assumes "is_float64 x" "0 \<le> n"
  shows "fl64 (x * pow2 n) = x * pow2 n"
proof (cases "x = 0")
  case True
  then show ?thesis by (simp add: fl64_def)
next
  case False
  from float64_grid [OF assms(1) False] obtain k where k: "x = of_int k * pow2 (ulp_exp x)" .
  have "binade \<bar>x * pow2 n\<bar> = binade \<bar>x\<bar> + n"
    using False binade_scale [of "\<bar>x\<bar>" n] by (simp add: abs_mult)
  then have u: "ulp_exp (x * pow2 n) \<le> ulp_exp x + n"
    using assms(2) by (simp add: ulp_exp_def)
  have "x * pow2 n = of_int k * pow2 (ulp_exp x + n)"
    using k pow2_add [of "ulp_exp x" n] by simp
  then show ?thesis using u by (rule fl64_exact)
qed

lemma fmul_1024: "is_float64 x \<Longrightarrow> fmul x 1024 = x * 1024"
  using float64_scale [of x 10] by (simp add: fmul_def pow2_def)

lemma is_float64_1024: "is_float64 x \<Longrightarrow> is_float64 (x * 1024)"
  using float64_scale [of x 10] by (simp add: is_float64_def pow2_def)

lemma memoryUsage_exact:
  assumes "is_float64 u"
  shows "fmul (fmul (fmul u 1024) 1024) 1024 = u * 1073741824"
proof -
  have "fmul (fmul (fmul u 1024) 1024) 1024 = u * 1024 * 1024 * 1024"
  proof -
    have a: "is_float64 (u * 1024)" using assms by (rule is_float64_1024)
    have b: "is_float64 (u * 1024 * 1024)" using a by (rule is_float64_1024)
    have "fmul u 1024 = u * 1024" using assms by (rule fmul_1024)
    moreover have "fmul (u * 1024) 1024 = u * 1024 * 1024" using a by (rule fmul_1024)
    moreover have "fmul (u * 1024 * 1024) 1024 = u * 1024 * 1024 * 1024" using b by (rule fmul_1024)
    ultimately show ?thesis by (simp only:)
  qed
  then show ?thesis by simp
qed

lemma unit_float64_le:
  assumes "unit_float64 u"
  shows "u \<le> 1 - 1 / 2 ^ 53"
proof (cases "u < 1 / 2")
  case True
  then show ?thesis by simp
next
  case False
  from assms have u: "is_float64 u" "u < 1" by (simp_all add: unit_float64_def)
  have b: "binade u = - 1"
    by (rule binade_unique) (use False u in \<open>simp_all add: pow2_def\<close>)
  have ue: "ulp_exp u = - 53" using False by (simp add: ulp_exp_def b)
  have "u \<noteq> 0" using False by simp
  from float64_grid [OF u(1) this] obtain k where k: "u = of_int k * pow2 (- 53)"
    by (auto simp: ue)
  then have k': "u = of_int k / 2 ^ 53" by (simp add: pow2_def)
  with u(2) have "(of_int k :: rat) < of_int (2 ^ 53)" by (simp add: field_simps)
  then have "k < 2 ^ 53" by (simp only: of_int_less_iff)
  then have "k \<le> 2 ^ 53 - 1" by simp
  then have "(of_int k :: rat) \<le> of_int (2 ^ 53 - 1)" by (simp only: of_int_le_iff)
  then show ?thesis by (simp add: k' field_simps)
qed

lemma cpuUsage_range:
  assumes "unit_float64 u"
  shows "0 \<le> fmul u 100" and "fmul u 100 < 100"
proof -
  from assms have u0: "0 \<le> u" by (simp add: unit_float64_def)
  show "0 \<le> fmul u 100" using u0 by (simp add: fmul_def fl64_nonneg)
  define x where "x = u * 100"
  have xle: "x \<le> 100 - 100 / 2 ^ 53" using unit_float64_le [OF assms] by (simp add: x_def)
  have "fl64 x < 100"
  proof (cases "x = 0")
    case True
    then show ?thesis by (simp add: fl64_def)
  next
    case False
    then have xpos: "0 < x" using u0 by (simp add: x_def)
    show ?thesis
    proof (cases "x < 64")
      case True
      have "pow2 (binade x) < pow2 6" using binade_spec(1) [OF xpos] True by (simp add: pow2_def)
      then have b: "binade x < 6" by (simp add: pow2_less_iff)
      then have ue: "ulp_exp x \<le> 6" using xpos by (simp add: ulp_exp_def)
      define d where "d = 6 - ulp_exp x"
      have d: "0 \<le> d" using ue by (simp add: d_def)
      have "pow2 6 = pow2 d * pow2 (ulp_exp x)"
        using pow2_add [of d "ulp_exp x"] by (simp add: d_def)
      then have g: "64 = of_int (2 ^ nat d) * pow2 (ulp_exp x)"
        using d by (simp add: pow2_nat pow2_def)
      have "x \<le> of_int (2 ^ nat d) * pow2 (ulp_exp x)" using True g by simp
      from fl64_le_grid [OF xpos this] have "fl64 x \<le> 64" using g by simp
      then show ?thesis by simp
    next
      case False
      have b: "binade x = 6"
        by (rule binade_unique) (use False xle in \<open>simp_all add: pow2_def\<close>)
      have ue: "ulp_exp x = - 46" using xpos by (simp add: ulp_exp_def b)
      have q: "pow2 (ulp_exp x) = 1 / 2 ^ 46" by (simp add: ue pow2_def)
      have "x / pow2 (ulp_exp x) = x * 2 ^ 46" by (simp add: q)
      also have "\<dots> \<le> (100 - 100 / 2 ^ 53) * 2 ^ 46" using xle by simp
      also have "\<dots> < of_int (100 * 2 ^ 46) - 1 / 2" by simp
      finally have "rne (x / pow2 (ulp_exp x)) < 100 * 2 ^ 46" by (rule rne_less)
      then have "rne (x / pow2 (ulp_exp x)) \<le> 100 * 2 ^ 46 - 1" by simp
      then have "(of_int (rne (x / pow2 (ulp_exp x))) :: rat) \<le> of_int (100 * 2 ^ 46 - 1)"
        by (simp only: of_int_le_iff)
      then have "fl64 x \<le> of_int (100 * 2 ^ 46 - 1) * (1 / 2 ^ 46)"
        using xpos by (simp add: fl64_pos_eq q)
      also have "\<dots> < 100" by simp
      finally show ?thesis .
    qed
  qed
  then show "fmul u 100 < 100" by (simp add: fmul_def x_def)
qed

section \<open>Two decimals, written and read back\<close>

lemma digit_cases: "d < 10 \<Longrightarrow> d = 0 \<or> d = 1 \<or> d = 2 \<or> d = 3 \<or> d = 4 \<or> d = 5 \<or> d = 6 \<or> d = 7
    \<or> d = 8 \<or> d = (9::nat)"
  by arith

lemma digit_char_props:
  assumes "d < 10"
  shows "is_digit (digit_char d)" and "digit_val (digit_char d) = d"
    and "digit_char d = CHR ''0'' \<longleftrightarrow> d = 0"
  using digit_cases [OF assms]
  by (auto simp: digit_char_def is_digit_def digit_val_def)

lemma show_nat_digits: "list_all is_digit (show_nat n)"
proof (induction n rule: show_nat.induct)
  case (1 n)
  show ?case
  proof (cases "n < 10")
    case True
    then show ?thesis by (subst show_nat.simps) (simp add: digit_char_props)
  next
    case False
    with 1 show ?thesis by (subst show_nat.simps) (simp add: digit_char_props)
  qed
qed

lemma show_nat_nonempty: "show_nat n \<noteq> []"
  by (subst show_nat.simps) simp

lemma read_nat_snoc: "read_nat (cs @ [c]) = 10 * read_nat cs + digit_val c"
  by (simp add: read_nat_def)

lemma read_show_nat: "read_nat (show_nat n) = n"
proof (induction n rule: show_nat.induct)
  case (1 n)
  show ?case
  proof (cases "n < 10")
    case True
    then show ?thesis
      by (subst show_nat.simps) (simp add: read_nat_def digit_char_props)
  next
    case False
    with 1 show ?thesis
      by (subst show_nat.simps) (simp add: read_nat_snoc digit_char_props)
  qed
qed

lemma show_nat_no_leading_zero: "n \<noteq> 0 \<Longrightarrow> hd (show_nat n) \<noteq> CHR ''0''"
proof (induction n rule: show_nat.induct)
  case (1 n)
  show ?case
  proof (cases "n < 10")
    case True
    with 1(2) show ?thesis
      by (subst show_nat.simps) (simp add: digit_char_props)
  next
    case False
    then have "n div 10 \<noteq> 0" by simp
    with 1(1) False have "hd (show_nat (n div 10)) \<noteq> CHR ''0''" by simp
    with False show ?thesis
      by (subst show_nat.simps) (simp add: show_nat_nonempty)
  qed
qed

lemma show_nat_zero: "show_nat 0 = ''0''"
  by (subst show_nat.simps) (simp add: digit_char_def)

lemma show_nat_leading:
  "\<not> (1 < length (show_nat n) \<and> hd (show_nat n) = CHR ''0'')"
  by (cases "n = 0") (simp_all add: show_nat_zero show_nat_no_leading_zero)

lemma not_digit_dot [simp]: "\<not> is_digit CHR ''.''"
  by (simp add: is_digit_def)

lemma json_unsigned_fixed2:
  assumes "d1 < 10" "d2 < 10"
  shows "json_unsigned (show_nat a @ ''.'' @ [digit_char d1, digit_char d2]) =
           Some (of_nat a + of_nat (10 * d1 + d2) / 100)"
proof -
  have all: "\<And>c. c \<in> set (show_nat a) \<Longrightarrow> is_digit c"
    using show_nat_digits [of a] by (simp add: list_all_iff)
  have tw: "takeWhile is_digit (show_nat a @ ''.'' @ [digit_char d1, digit_char d2]) = show_nat a"
    using all by (simp add: takeWhile_append2)
  have dw: "dropWhile is_digit (show_nat a @ ''.'' @ [digit_char d1, digit_char d2]) =
              ''.'' @ [digit_char d1, digit_char d2]"
    using all by (simp add: dropWhile_append2)
  have r: "read_nat [digit_char d1, digit_char d2] = 10 * d1 + d2"
    using assms by (simp add: read_nat_def digit_char_props)
  show ?thesis
    unfolding json_unsigned_def tw dw Let_def
    using assms show_nat_leading [of a]
    by (simp add: show_nat_nonempty read_show_nat r digit_char_props)
qed

lemma fmt_f2_nonneg:
  assumes "0 \<le> x"
  shows "fmt_f2 x = show_nat (nat (rne (x * 100)) div 100) @ ''.'' @
           [digit_char (nat (rne (x * 100)) mod 100 div 10), digit_char (nat (rne (x * 100)) mod 10)]"
  using assms by (simp add: fmt_f2_def Let_def)

lemma fmt_f2_chars:
  assumes "0 \<le> x" "c \<in> set (fmt_f2 x)"
  shows "is_number_char c"
proof -
  have "\<And>c. c \<in> set (show_nat (nat (rne (x * 100)) div 100)) \<Longrightarrow> is_digit c"
    using show_nat_digits [of "nat (rne (x * 100)) div 100"] by (simp add: list_all_iff)
  then show ?thesis
    using assms(2) by (auto simp: fmt_f2_nonneg [OF assms(1)] is_number_char_def digit_char_props)
qed

lemma digits_mod_100: "10 * ((n::nat) mod 100 div 10) + n mod 10 = n mod 100"
proof -
  have a: "n mod 100 mod 10 = n mod 10" by (simp add: mod_mod_cancel)
  have "10 * (n mod 100 div 10) + n mod 100 mod 10 = n mod 100" by (rule mult_div_mod_eq)
  then show ?thesis by (simp only: a)
qed

lemma json_number_fmt_f2:
  assumes "0 \<le> x"
  shows "json_number (fmt_f2 x) = Some (of_int (rne (x * 100)) / 100)"
proof -
  define n where "n = nat (rne (x * 100))"
  have n0: "0 \<le> rne (x * 100)" by (rule rne_ge) (use assms in simp)
  have d: "n mod 100 div 10 < 10" "n mod 10 < 10" by simp_all
  have "hd (show_nat (n div 100)) \<noteq> CHR ''-''"
    using show_nat_digits [of "n div 100"] show_nat_nonempty [of "n div 100"]
    by (cases "show_nat (n div 100)") (auto simp: is_digit_def)
  then have "json_number (fmt_f2 x) =
      json_unsigned (show_nat (n div 100) @ ''.'' @ [digit_char (n mod 100 div 10), digit_char (n mod 10)])"
    using show_nat_nonempty [of "n div 100"]
    by (cases "show_nat (n div 100)") (simp_all add: fmt_f2_nonneg [OF assms] n_def json_number_def)
  also have "\<dots> = Some (of_nat (n div 100) + of_nat (10 * (n mod 100 div 10) + n mod 10) / 100)"
    using d by (rule json_unsigned_fixed2)
  also have "10 * (n mod 100 div 10) + n mod 10 = n mod 100"
    by (rule digits_mod_100)
  also have "(of_nat (n div 100) :: rat) + of_nat (n mod 100) / 100 = of_nat n / 100"
  proof -
    have "(of_nat n :: rat) = of_nat (100 * (n div 100) + n mod 100)" by simp
    also have "\<dots> = 100 * of_nat (n div 100) + of_nat (n mod 100)"
      by (simp only: of_nat_add of_nat_mult of_nat_numeral)
    finally show ?thesis by simp
  qed
  also have "(of_nat n :: rat) = of_int (rne (x * 100))"
    using n0 by (simp add: n_def)
  finally show ?thesis .
qed

lemma not_number_chars [simp]: "\<not> is_number_char CHR '',''" "\<not> is_number_char CHR ''}''"
  by (simp_all add: is_number_char_def is_digit_def)

lemma parse_metrics_body:
  assumes "0 \<le> c" "0 \<le> m"
  shows "parse_metrics (metrics_body c m) =
           Some (of_int (rne (c * 100)) / 100, of_int (rne (m * 100)) / 100)"
proof -
  have s1: "strip_prefix ''{\"cpu_usage\": '' (metrics_body c m) =
              Some (fmt_f2 c @ '', \"memory_usage\": '' @ fmt_f2 m @ ''}'')"
    by (simp add: strip_prefix_def metrics_body_def)
  have t1: "takeWhile is_number_char (fmt_f2 c @ '', \"memory_usage\": '' @ fmt_f2 m @ ''}'') = fmt_f2 c"
    using fmt_f2_chars [OF assms(1)] by (simp add: takeWhile_append2)
  have d1: "dropWhile is_number_char (fmt_f2 c @ '', \"memory_usage\": '' @ fmt_f2 m @ ''}'') =
              '', \"memory_usage\": '' @ fmt_f2 m @ ''}''"
    using fmt_f2_chars [OF assms(1)] by (simp add: dropWhile_append2)
  have s2: "strip_prefix '', \"memory_usage\": '' ('', \"memory_usage\": '' @ fmt_f2 m @ ''}'') =
              Some (fmt_f2 m @ ''}'')"
    by (simp add: strip_prefix_def)
  have t2: "takeWhile is_number_char (fmt_f2 m @ ''}'') = fmt_f2 m"
    using fmt_f2_chars [OF assms(2)] by (simp add: takeWhile_append2)
  have d2: "dropWhile is_number_char (fmt_f2 m @ ''}'') = ''}''"
    using fmt_f2_chars [OF assms(2)] by (simp add: dropWhile_append2)
  show ?thesis
    unfolding parse_metrics_def s1 option.case t1 d1 s2 t2 d2
      json_number_fmt_f2 [OF assms(1)] json_number_fmt_f2 [OF assms(2)]
    by simp
qed

lemma rounded_range:
  assumes "0 \<le> x" "x \<le> of_int N"
  shows "0 \<le> (of_int (rne (x * 100)) :: rat) / 100" and "(of_int (rne (x * 100)) :: rat) / 100 \<le> of_int N"
    and "\<bar>(of_int (rne (x * 100)) :: rat) / 100 - x\<bar> \<le> 1 / 200"
proof -
  have "0 \<le> rne (x * 100)" by (rule rne_ge) (use assms in simp)
  then show "0 \<le> (of_int (rne (x * 100)) :: rat) / 100" by simp
  have "x * 100 \<le> of_int (N * 100)" using assms(2) by simp
  then have "rne (x * 100) \<le> N * 100" by (rule rne_le)
  then have "(of_int (rne (x * 100)) :: rat) \<le> of_int (N * 100)" by (simp only: of_int_le_iff)
  then show "(of_int (rne (x * 100)) :: rat) / 100 \<le> of_int N" by simp
  show "\<bar>(of_int (rne (x * 100)) :: rat) / 100 - x\<bar> \<le> 1 / 200"
    using rne_close [of "x * 100"] by (simp add: abs_le_iff field_simps)
qed

lemma floor_rat_numeral [simp]: "\<lfloor>numeral a / numeral b :: rat\<rfloor> = numeral a div numeral b"
  using floor_divide_of_int_eq [of "numeral a" "numeral b", where ?'a = rat] by simp

lemma near_one_float: "unit_float64 (1 - 1 / 2 ^ 40)"
proof -
  let ?x = "1 - 1 / 2 ^ 40 :: rat"
  have b: "binade \<bar>?x\<bar> = - 1"
    by (rule binade_unique) (simp_all add: pow2_def)
  have u: "ulp_exp ?x \<le> - 40"
    using b by (simp add: ulp_exp_def)
  have "fl64 ?x = ?x"
    by (rule fl64_exact [where k = "2 ^ 40 - 1" and j = "- 40"])
       (simp add: pow2_def, rule u)
  then show ?thesis by (simp add: unit_float64_def is_float64_def)
qed

lemma near_one_cpuUsage: "fmul (1 - 1 / 2 ^ 40) 100 = 100 - 100 / 2 ^ 40"
proof -
  let ?x = "(1 - 1 / 2 ^ 40) * 100 :: rat"
  have b: "binade \<bar>?x\<bar> = 6"
    by (rule binade_unique) (simp_all add: pow2_def)
  have u: "ulp_exp ?x \<le> - 40"
    using b by (simp add: ulp_exp_def)
  have "fl64 ?x = ?x"
    by (rule fl64_exact [where k = "100 * (2 ^ 40 - 1)" and j = "- 40"])
       (simp add: pow2_def, rule u)
  then show ?thesis by (simp add: fmul_def)
qed

lemma near_one_memoryUsage:
  "fmul (fmul (fmul (1 - 1 / 2 ^ 40) 1024) 1024) 1024 = 1073741824 - 1 / 1024"
  using near_one_float by (simp add: memoryUsage_exact unit_float64_def)

lemma rne_near_ten_thousand: "rne ((100 - 100 / 2 ^ 40) * 100) = 10000"
  by (simp add: rne_def Let_def)

lemma rne_near_two_pow_30: "rne ((1073741824 - 1 / 1024) * 100) = 107374182400"
  by (simp add: rne_def Let_def)

lemma show_nat_100: "show_nat 100 = ''100''"
  by (simp add: show_nat.simps digit_char_def)

lemma show_nat_two_pow_30: "show_nat 1073741824 = ''1073741824''"
  by (simp add: show_nat.simps digit_char_def)

lemma near_one_body:
  "metrics_body (100 - 100 / 2 ^ 40) (1073741824 - 1 / 1024) =
     ''{\"cpu_usage\": 100.00, \"memory_usage\": 1073741824.00}''"
proof -
  have "fmt_f2 (100 - 100 / 2 ^ 40) = ''100.00''"
    unfolding fmt_f2_def Let_def
    using rne_near_ten_thousand
    by (simp add: abs_of_nonneg show_nat_100 digit_char_def)
  moreover have "fmt_f2 (1073741824 - 1 / 1024) = ''1073741824.00''"
    unfolding fmt_f2_def Let_def
    using rne_near_two_pow_30
    by (simp add: abs_of_nonneg show_nat_two_pow_30 digit_char_def)
  ultimately show ?thesis by (simp add: metrics_body_def)
qed

lemma example_units:
  "rand_unit example_world (rand_pos example_world) = 1 - 1 / 2 ^ 40"
  "rand_unit example_world (rand_pos example_world + 1) = 1 - 1 / 2 ^ 40"
  by (simp_all add: example_world_def)

lemma example_metrics_body:
  "Body (fst (snd (metricsHandler (NewRecorder plain_sniff) (example_request ''GET'' ''/metrics'')
                     example_world)))
   = ''{\"cpu_usage\": 100.00, \"memory_usage\": 1073741824.00}''"
proof -
  have hs: "\<not> wroteHeader (Header_Set ''Content-Type'' ''application/json'' (NewRecorder plain_sniff))"
    by (simp add: Header_Set_def NewRecorder_def)
  have "fst (snd (metricsHandler (NewRecorder plain_sniff) (example_request ''GET'' ''/metrics'')
                     example_world))
        = Write (metrics_body (100 - 100 / 2 ^ 40) (1073741824 - 1 / 1024))
            (WriteHeader StatusOK
               (Header_Set ''Content-Type'' ''application/json'' (NewRecorder plain_sniff)))"
    by (simp only: metricsHandler_writer [OF example_ready] example_units near_one_cpuUsage
          near_one_memoryUsage)
  then show ?thesis
    by (simp only: Write_after_WriteHeader [OF hs] near_one_body)
       (simp add: Header_Set_def NewRecorder_def)
qed

section \<open>The claims\<close>

text \<open>
  Claim C2: for every request that the health handler handles, whatever its method and its
  other data, the response has status 200 and the body \<open>OK\<close>, and the handler sets no
  Content-Type header: the header map of the writer is the one it was given, and that map
  is what is sent. The writer is one on which nothing was written yet.
\<close>

theorem healthHandler_response:
  assumes "telemetry_ready s" "\<not> wroteHeader w" "Body w = []"
  shows "case healthHandler w r s of (p, w', s') \<Rightarrow>
           p = None \<and> Code w' = 200 \<and> Body w' = ''OK'' \<and> HeaderMap w' = HeaderMap w
           \<and> snapHeader w' = Some (HeaderMap w)"
proof -
  from assms(1) obtain t c h where
    "tracer s = Some t" "requestCounter s = Some c" "requestDuration s = Some h"
    by (rule ready_handles)
  then show ?thesis
    using assms(2,3) by (simp add: healthHandler_run Write_after_WriteHeader StatusOK_def)
qed

theorem healthHandler_response_witness:
  "telemetry_ready example_world \<and> \<not> wroteHeader (NewRecorder plain_sniff)
   \<and> Body (NewRecorder plain_sniff) = []
   \<and> (case healthHandler (NewRecorder plain_sniff) (example_request ''POST'' ''/health'')
              example_world of
         (p, w', s') \<Rightarrow>
           p = None \<and> Code w' = 200 \<and> Body w' = ''OK''
           \<and> HeaderMap w' = HeaderMap (NewRecorder plain_sniff)
           \<and> snapHeader w' = Some (HeaderMap (NewRecorder plain_sniff)))"
  using healthHandler_response [of example_world "NewRecorder plain_sniff"
          "example_request ''POST'' ''/health''"]
        example_ready fresh_recorder [of plain_sniff]
  by simp

text \<open>
  Claim C1: a request handled by the work handler has one of two outcomes, decided by the
  handler's draw from \<open>{0, ..., 19}\<close>. When the draw is 0: status 500, body
  \<open>Internal Server Error\<close>, and the attribute \<open>error = true\<close> on the request span
  \<open>do_work\<close>. Otherwise: status 200, body \<open>Work completed successfully\<close>, and no \<open>error\<close>
  attribute on the request span. Of the twenty values of the draw, exactly one gives
  status 500 and the nineteen others give status 200.
\<close>

theorem workHandler_two_outcomes:
  assumes "telemetry_ready s" "\<not> wroteHeader w" "Body w = []"
  shows "(case workHandler w r s of (p, w', s') \<Rightarrow>
            p = None \<and> span_name (spans s' ! length (spans s)) = ''do_work'' \<and>
            (if rand_src s (rand_pos s + 4) mod 20 = 0
             then Code w' = 500 \<and> Body w' = ''Internal Server Error''
                  \<and> span_attrs (spans s' ! length (spans s)) ''error'' = Some (ABool True)
             else Code w' = 200 \<and> Body w' = ''Work completed successfully''
                  \<and> span_attrs (spans s' ! length (spans s)) ''error'' = None))
         \<and> card {k \<in> {..<20}. Code (fst (snd (workHandler w r
                     (s\<lparr>rand_src := (rand_src s)(rand_pos s + 4 := k)\<rparr>)))) = 500} = 1
         \<and> card {k \<in> {..<20}. Code (fst (snd (workHandler w r
                     (s\<lparr>rand_src := (rand_src s)(rand_pos s + 4 := k)\<rparr>)))) = 200} = 19"
proof -
  have A: "case workHandler w r s of (p, w', s') \<Rightarrow>
            p = None \<and> span_name (spans s' ! length (spans s)) = ''do_work'' \<and>
            (if rand_src s (rand_pos s + 4) mod 20 = 0
             then Code w' = 500 \<and> Body w' = ''Internal Server Error''
                  \<and> span_attrs (spans s' ! length (spans s)) ''error'' = Some (ABool True)
             else Code w' = 200 \<and> Body w' = ''Work completed successfully''
                  \<and> span_attrs (spans s' ! length (spans s)) ''error'' = None)"
    using workHandler_fields [OF assms(1,2), of r] workHandler_spans [OF assms(1), of w r]
      assms(3)
    by (simp add: split_beta Let_def set_attrs_def)
  let ?code = "\<lambda>k. Code (fst (snd (workHandler w r
                     (s\<lparr>rand_src := (rand_src s)(rand_pos s + 4 := k)\<rparr>))))"
  have code: "?code k = (if k mod 20 = 0 then 500 else 200)" for k
    using workHandler_fields(2) [of "s\<lparr>rand_src := (rand_src s)(rand_pos s + 4 := k)\<rparr>" w r]
      assms(1,2)
    by (simp add: ready_rand_src_update)
  have "{k \<in> {..<20}. ?code k = 500} = {0}"
    by (auto simp: code)
  moreover have "{k \<in> {..<20}. ?code k = 200} = {..<20} - {0::nat}"
    by (auto simp: code)
  ultimately show ?thesis using A by simp
qed

theorem workHandler_two_outcomes_witness:
  "telemetry_ready example_world \<and> \<not> wroteHeader (NewRecorder plain_sniff)
   \<and> Body (NewRecorder plain_sniff) = []
   \<and> rand_src example_world (rand_pos example_world + 4) mod 20 = 11
   \<and> Code (fst (snd (workHandler (NewRecorder plain_sniff) (example_request ''GET'' ''/work'')
                        example_world))) = 200
   \<and> Body (fst (snd (workHandler (NewRecorder plain_sniff) (example_request ''GET'' ''/work'')
                        example_world))) = ''Work completed successfully''
   \<and> telemetry_ready (example_world\<lparr>rand_src := (\<lambda>i. 20 * i)\<rparr>)
   \<and> Code (fst (snd (workHandler (NewRecorder plain_sniff) (example_request ''GET'' ''/work'')
                        (example_world\<lparr>rand_src := (\<lambda>i. 20 * i)\<rparr>)))) = 500
   \<and> Body (fst (snd (workHandler (NewRecorder plain_sniff) (example_request ''GET'' ''/work'')
                        (example_world\<lparr>rand_src := (\<lambda>i. 20 * i)\<rparr>))))
       = ''Internal Server Error''"
proof -
  have d: "rand_src example_world (rand_pos example_world + 4) mod 20 = 11"
    by (simp add: example_world_def)
  have r: "telemetry_ready (example_world\<lparr>rand_src := (\<lambda>i. 20 * i)\<rparr>)"
    using example_ready by (simp add: ready_rand_src_update)
  have e: "rand_src (example_world\<lparr>rand_src := (\<lambda>i. 20 * i)\<rparr>)
             (rand_pos (example_world\<lparr>rand_src := (\<lambda>i. 20 * i)\<rparr>) + 4) mod 20 = 0"
    by simp
  show ?thesis
    using workHandler_two_outcomes [of example_world "NewRecorder plain_sniff"
            "example_request ''GET'' ''/work''"]
      workHandler_two_outcomes [of "example_world\<lparr>rand_src := (\<lambda>i. 20 * i)\<rparr>"
            "NewRecorder plain_sniff" "example_request ''GET'' ''/work''"]
      example_ready fresh_recorder [of plain_sniff] d r e
    by (simp add: split_beta)
qed

text \<open>
  Claim C3, with closed intervals for the numbers in the body: for every request handled
  by the metrics handler the status is 200, the Content-Type sent is \<open>application/json\<close>,
  and the body is exactly \<open>{"cpu_usage": C, "memory_usage": M}\<close>, where \<open>C\<close> and \<open>M\<close> are
  \<open>cpuUsage\<close>, in \<open>[0, 100)\<close>, and \<open>memoryUsage\<close>, in \<open>[0, 2^30)\<close>, formatted with two
  decimals. The body reads back as two numbers, each within 0.005 of the value formatted,
  \<open>cpu_usage\<close> in the closed interval \<open>[0, 100]\<close> and \<open>memory_usage\<close> in \<open>[0, 2^30]\<close>.
\<close>

theorem metricsHandler_response:
  assumes "telemetry_ready s" "\<not> wroteHeader w" "Body w = []"
    and "unit_float64 (rand_unit s (rand_pos s))"
    and "unit_float64 (rand_unit s (rand_pos s + 1))"
  shows "(let cpuUsage = fmul (rand_unit s (rand_pos s)) 100;
              memoryUsage = fmul (fmul (fmul (rand_unit s (rand_pos s + 1)) 1024) 1024) 1024
          in case metricsHandler w r s of (p, w', s') \<Rightarrow>
               p = None \<and> Code w' = 200
               \<and> (\<exists>h. snapHeader w' = Some h
                       \<and> Header_Get h ''Content-Type'' = ''application/json'')
               \<and> Body w' = ''{\"cpu_usage\": '' @ fmt_f2 cpuUsage
                            @ '', \"memory_usage\": '' @ fmt_f2 memoryUsage @ ''}''
               \<and> 0 \<le> cpuUsage \<and> cpuUsage < 100
               \<and> 0 \<le> memoryUsage \<and> memoryUsage < 2 ^ 30
               \<and> (\<exists>c m. parse_metrics (Body w') = Some (c, m)
                        \<and> 0 \<le> c \<and> c \<le> 100 \<and> \<bar>c - cpuUsage\<bar> \<le> 1 / 200
                        \<and> 0 \<le> m \<and> m \<le> 2 ^ 30 \<and> \<bar>m - memoryUsage\<bar> \<le> 1 / 200))"
proof -
  define cpuUsage where "cpuUsage = fmul (rand_unit s (rand_pos s)) 100"
  define memoryUsage where
    "memoryUsage = fmul (fmul (fmul (rand_unit s (rand_pos s + 1)) 1024) 1024) 1024"
  have c: "0 \<le> cpuUsage" "cpuUsage < 100"
    using cpuUsage_range [OF assms(4)] by (simp_all add: cpuUsage_def)
  have me: "memoryUsage = rand_unit s (rand_pos s + 1) * 1073741824"
    using assms(5) by (simp add: memoryUsage_def memoryUsage_exact unit_float64_def)
  have m: "0 \<le> memoryUsage" "memoryUsage < 2 ^ 30"
    using assms(5) by (simp_all add: me unit_float64_def)
  have w: "fst (snd (metricsHandler w r s)) =
             Write (metrics_body cpuUsage memoryUsage)
               (WriteHeader StatusOK (Header_Set ''Content-Type'' ''application/json'' w))"
    "fst (metricsHandler w r s) = None"
    using metricsHandler_writer [OF assms(1), of w r] by (simp_all add: cpuUsage_def memoryUsage_def)
  have hs: "\<not> wroteHeader (Header_Set ''Content-Type'' ''application/json'' w)"
    using assms(2) by (simp add: Header_Set_def)
  have w': "fst (snd (metricsHandler w r s)) =
             (Header_Set ''Content-Type'' ''application/json'' w)
               \<lparr>Code := StatusOK, wroteHeader := True,
                snapHeader := Some (HeaderMap (Header_Set ''Content-Type'' ''application/json'' w)),
                Body := Body (Header_Set ''Content-Type'' ''application/json'' w)
                          @ metrics_body cpuUsage memoryUsage\<rparr>"
    by (simp only: w Write_after_WriteHeader [OF hs])
  have body: "Body (fst (snd (metricsHandler w r s))) = metrics_body cpuUsage memoryUsage"
    using assms(3) by (simp add: w' Header_Set_def)
  have code: "Code (fst (snd (metricsHandler w r s))) = 200"
    by (simp add: w' StatusOK_def)
  have hdr: "\<exists>h. snapHeader (fst (snd (metricsHandler w r s))) = Some h
                \<and> Header_Get h ''Content-Type'' = ''application/json''"
    by (simp add: w' Header_Set_def Header_Get_def)
  have p: "parse_metrics (metrics_body cpuUsage memoryUsage) =
             Some (of_int (rne (cpuUsage * 100)) / 100, of_int (rne (memoryUsage * 100)) / 100)"
    using c(1) m(1) by (rule parse_metrics_body)
  have rc: "0 \<le> (of_int (rne (cpuUsage * 100)) :: rat) / 100"
    "(of_int (rne (cpuUsage * 100)) :: rat) / 100 \<le> 100"
    "\<bar>(of_int (rne (cpuUsage * 100)) :: rat) / 100 - cpuUsage\<bar> \<le> 1 / 200"
    using rounded_range [of cpuUsage 100] c by simp_all
  have rm: "0 \<le> (of_int (rne (memoryUsage * 100)) :: rat) / 100"
    "(of_int (rne (memoryUsage * 100)) :: rat) / 100 \<le> 2 ^ 30"
    "\<bar>(of_int (rne (memoryUsage * 100)) :: rat) / 100 - memoryUsage\<bar> \<le> 1 / 200"
    using rounded_range [of memoryUsage "2 ^ 30"] m by simp_all
  have body2: "Body (fst (snd (metricsHandler w r s))) =
                 ''{\"cpu_usage\": '' @ fmt_f2 cpuUsage
                 @ '', \"memory_usage\": '' @ fmt_f2 memoryUsage @ ''}''"
    using body by (simp only: metrics_body_def)
  have ex: "\<exists>c m. parse_metrics (Body (fst (snd (metricsHandler w r s)))) = Some (c, m)
                        \<and> 0 \<le> c \<and> c \<le> 100 \<and> \<bar>c - cpuUsage\<bar> \<le> 1 / 200
                        \<and> 0 \<le> m \<and> m \<le> 2 ^ 30 \<and> \<bar>m - memoryUsage\<bar> \<le> 1 / 200"
    unfolding body using p rc rm by blast
  show ?thesis
    unfolding Let_def split_beta cpuUsage_def [symmetric] memoryUsage_def [symmetric]
    by (intro conjI w(2) code hdr body2 c m ex)
qed

theorem metricsHandler_response_witness:
  "telemetry_ready example_world \<and> \<not> wroteHeader (NewRecorder plain_sniff)
   \<and> Body (NewRecorder plain_sniff) = []
   \<and> unit_float64 (rand_unit example_world (rand_pos example_world))
   \<and> unit_float64 (rand_unit example_world (rand_pos example_world + 1))
   \<and> Code (fst (snd (metricsHandler (NewRecorder plain_sniff)
                        (example_request ''GET'' ''/metrics'') example_world))) = 200
   \<and> fmul (rand_unit example_world (rand_pos example_world)) 100 < 100
   \<and> (\<exists>c m. parse_metrics (Body (fst (snd (metricsHandler (NewRecorder plain_sniff)
                        (example_request ''GET'' ''/metrics'') example_world)))) = Some (c, m)
            \<and> c \<le> 100 \<and> m \<le> 2 ^ 30)"
proof -
  have u: "unit_float64 (rand_unit example_world (rand_pos example_world))"
    "unit_float64 (rand_unit example_world (rand_pos example_world + 1))"
    by (simp_all only: example_units near_one_float)
  have f: "\<not> wroteHeader (NewRecorder plain_sniff)" "Body (NewRecorder plain_sniff) = []"
    by (rule fresh_recorder)+
  from metricsHandler_response [OF example_ready f u,
         of "example_request ''GET'' ''/metrics''"]
  have "Code (fst (snd (metricsHandler (NewRecorder plain_sniff)
                        (example_request ''GET'' ''/metrics'') example_world))) = 200
   \<and> fmul (rand_unit example_world (rand_pos example_world)) 100 < 100
   \<and> (\<exists>c m. parse_metrics (Body (fst (snd (metricsHandler (NewRecorder plain_sniff)
                        (example_request ''GET'' ''/metrics'') example_world)))) = Some (c, m)
            \<and> c \<le> 100 \<and> m \<le> 2 ^ 30)"
    unfolding Let_def split_beta by blast
  with example_ready f u show ?thesis by blast
qed

text \<open>
  The upper bounds are reached, so the numbers in the body do not stay in the half-open
  intervals of the draws: with both draws equal to \<open>1 - 2^-40\<close>, a float64 in \<open>[0, 1)\<close>,
  the body is \<open>{"cpu_usage": 100.00, "memory_usage": 1073741824.00}\<close>.
\<close>

theorem metrics_fields_reach_upper_bounds:
  "telemetry_ready example_world
   \<and> unit_float64 (rand_unit example_world (rand_pos example_world))
   \<and> unit_float64 (rand_unit example_world (rand_pos example_world + 1))
   \<and> Body (fst (snd (metricsHandler (NewRecorder plain_sniff)
                        (example_request ''GET'' ''/metrics'') example_world)))
       = ''{\"cpu_usage\": 100.00, \"memory_usage\": 1073741824.00}''
   \<and> parse_metrics (Body (fst (snd (metricsHandler (NewRecorder plain_sniff)
                        (example_request ''GET'' ''/metrics'') example_world))))
       = Some (100, 2 ^ 30)
   \<and> \<not> (100 < (100 :: rat)) \<and> \<not> (2 ^ 30 < (2 ^ 30 :: rat))"
proof -
  have u: "unit_float64 (rand_unit example_world (rand_pos example_world))"
    "unit_float64 (rand_unit example_world (rand_pos example_world + 1))"
    by (simp_all only: example_units near_one_float)
  have "parse_metrics (metrics_body (100 - 100 / 2 ^ 40) (1073741824 - 1 / 1024))
          = Some (of_int (rne ((100 - 100 / 2 ^ 40) * 100)) / 100,
                  of_int (rne ((1073741824 - 1 / 1024) * 100)) / 100)"
    by (rule parse_metrics_body) simp_all
  then have "parse_metrics (metrics_body (100 - 100 / 2 ^ 40) (1073741824 - 1 / 1024))
          = Some (100, 2 ^ 30)"
    by (simp only: rne_near_ten_thousand rne_near_two_pow_30) simp
  then have p: "parse_metrics (Body (fst (snd (metricsHandler (NewRecorder plain_sniff)
                        (example_request ''GET'' ''/metrics'') example_world))))
       = Some (100, 2 ^ 30)"
    by (simp only: example_metrics_body near_one_body)
  show ?thesis
    using example_ready u example_metrics_body p by simp
qed

text \<open>
  Claim C4: every run of one of the three handlers, on every path and also on the one of
  the work handler that answers 500, makes exactly one increment, by 1, of the counter
  \<open>http_requests_total\<close> and exactly one observation on the histogram
  \<open>http_request_duration_seconds\<close>: never none, never more. The two instruments are the
  values of \<open>requestCounter\<close> and \<open>requestDuration\<close>, as \<open>initTelemetry\<close> leaves them.
\<close>

theorem one_counter_one_histogram:
  assumes "telemetry_ready s" "requestCounter s = Some c" "requestDuration s = Some h"
    and "instr_name c = ''http_requests_total''"
    and "instr_name h = ''http_request_duration_seconds''"
    and "handler \<in> {healthHandler, workHandler, metricsHandler}"
  shows "case handler w r s of (p, w', s') \<Rightarrow>
           p = None
           \<and> (\<exists>cx attrs. counter_log s' = counter_log s @ [(c, cx, 1, attrs)])
           \<and> (\<exists>cx v attrs. hist_log s' = hist_log s @ [(h, cx, v, attrs)])
           \<and> length (filter (\<lambda>e. instr_name (fst e) = ''http_requests_total'') (counter_log s'))
               = length (filter (\<lambda>e. instr_name (fst e) = ''http_requests_total'')
                           (counter_log s)) + 1
           \<and> length (filter (\<lambda>e. instr_name (fst e) = ''http_request_duration_seconds'')
                         (hist_log s'))
               = length (filter (\<lambda>e. instr_name (fst e) = ''http_request_duration_seconds'')
                           (hist_log s)) + 1"
proof -
  from assms(1) obtain t where t: "tracer s = Some t"
    by (auto simp: telemetry_ready_def)
  note run = healthHandler_run [OF t assms(2,3)] workHandler_run [OF t assms(2,3)]
    metricsHandler_run [OF t assms(2,3)]
  from assms(6) consider "handler = healthHandler" | "handler = workHandler"
    | "handler = metricsHandler" by blast
  then show ?thesis
  proof cases
    case 1
    then show ?thesis using assms(4,5) by (simp add: run(1))
  next
    case 2
    then show ?thesis using assms(4,5) by (simp add: run(2) Let_def)
  next
    case 3
    then show ?thesis using assms(4,5) by (simp add: run(3) Let_def)
  qed
qed

theorem one_counter_one_histogram_witness:
  "telemetry_ready example_world
   \<and> requestCounter example_world =
       Some \<lparr>instr_name = ''http_requests_total'',
             instr_desc = ''Total number of HTTP requests''\<rparr>
   \<and> requestDuration example_world =
       Some \<lparr>instr_name = ''http_request_duration_seconds'',
             instr_desc = ''HTTP request duration in seconds''\<rparr>
   \<and> workHandler \<in> {healthHandler, workHandler, metricsHandler}
   \<and> length (filter (\<lambda>e. instr_name (fst e) = ''http_requests_total'')
        (counter_log (snd (snd (workHandler (NewRecorder plain_sniff)
                                  (example_request ''GET'' ''/work'') example_world))))) = 1
   \<and> length (filter (\<lambda>e. instr_name (fst e) = ''http_request_duration_seconds'')
        (hist_log (snd (snd (workHandler (NewRecorder plain_sniff)
                               (example_request ''GET'' ''/work'') example_world))))) = 1"
proof -
  have h: "requestCounter example_world =
       Some \<lparr>instr_name = ''http_requests_total'',
             instr_desc = ''Total number of HTTP requests''\<rparr>"
    "requestDuration example_world =
       Some \<lparr>instr_name = ''http_request_duration_seconds'',
             instr_desc = ''HTTP request duration in seconds''\<rparr>"
    "counter_log example_world = []" "hist_log example_world = []"
    by (simp_all add: example_world_def)
  have n: "instr_name \<lparr>instr_name = ''http_requests_total'',
             instr_desc = ''Total number of HTTP requests''\<rparr> = ''http_requests_total''"
    "instr_name \<lparr>instr_name = ''http_request_duration_seconds'',
             instr_desc = ''HTTP request duration in seconds''\<rparr>
       = ''http_request_duration_seconds''"
    by simp_all
  have m: "workHandler \<in> {healthHandler, workHandler, metricsHandler}" by simp
  show ?thesis
    using one_counter_one_histogram [OF example_ready h(1,2) n m,
            where w = "NewRecorder plain_sniff" and r = "example_request ''GET'' ''/work''"]
      example_ready h
    by (simp add: split_beta)
qed

text \<open>
  Claim C5: a call of \<open>simulateWork\<close> with a context that carries a recording span sleeps
  for the number of milliseconds it draws from \<open>[0, 500)\<close>, each of the 500 values coming
  from its own value of the draw; the span receives \<open>work.type = "processing"\<close> and
  \<open>work.duration_ms\<close>, the number drawn; a second draw, from \<open>[0, 10)\<close>, decides whether the
  span also receives \<open>error = true\<close> and a log line is written, which exactly one of its ten
  values does. The function returns the state only: it has no result and no error. With
  a context that carries no span it sleeps and logs the same, and no span changes.
\<close>

theorem simulateWork_effect:
  assumes "i < length (spans s)" "\<not> span_ended (spans s ! i)"
  shows "(let ms = rand_src s (rand_pos s) mod 500; e = rand_src s (rand_pos s + 1) mod 10;
              s' = simulateWork (Some i) s
          in ms < 500
             \<and> sleeps s' = sleeps s @ [int ms * Millisecond]
             \<and> clock s' = clock s + int ms * Millisecond
             \<and> span_attrs (spans s' ! i) ''work.type'' = Some (AString ''processing'')
             \<and> span_attrs (spans s' ! i) ''work.duration_ms'' = Some (AInt (int ms))
             \<and> (if e = 0
                 then span_attrs (spans s' ! i) ''error'' = Some (ABool True)
                      \<and> log_lines s' = log_lines s @ [''Simulated error occurred'']
                 else span_attrs (spans s' ! i) ''error'' = span_attrs (spans s ! i) ''error''
                      \<and> log_lines s' = log_lines s)
             \<and> rand_pos s' = rand_pos s + 2
             \<and> counter_log s' = counter_log s \<and> hist_log s' = hist_log s
             \<and> length (spans s') = length (spans s))
         \<and> (\<forall>k<500. sleeps (simulateWork (Some i) (s\<lparr>rand_src := (rand_src s)(rand_pos s := k)\<rparr>))
                       = sleeps s @ [int k * Millisecond])
         \<and> card {k \<in> {..<10}. span_attrs (spans (simulateWork (Some i)
                     (s\<lparr>rand_src := (rand_src s)(rand_pos s + 1 := k)\<rparr>)) ! i) ''error''
                   = Some (ABool True)
                 \<and> log_lines (simulateWork (Some i)
                     (s\<lparr>rand_src := (rand_src s)(rand_pos s + 1 := k)\<rparr>))
                   = log_lines s @ [''Simulated error occurred'']} = 1
         \<and> spans (simulateWork None s) = spans s
         \<and> sleeps (simulateWork None s) = sleeps (simulateWork (Some i) s)
         \<and> log_lines (simulateWork None s) = log_lines (simulateWork (Some i) s)"
proof -
  have D: "spans (simulateWork None s) = spans s
         \<and> sleeps (simulateWork None s) = sleeps (simulateWork (Some i) s)
         \<and> log_lines (simulateWork None s) = log_lines (simulateWork (Some i) s)"
    using assms by (simp add: simulateWork_recording simulateWork_no_span)
  have A: "\<forall>k<500. sleeps (simulateWork (Some i) (s\<lparr>rand_src := (rand_src s)(rand_pos s := k)\<rparr>))
                       = sleeps s @ [int k * Millisecond]"
    using assms by (simp add: simulateWork_recording)
  have "{k \<in> {..<10}. span_attrs (spans (simulateWork (Some i)
                     (s\<lparr>rand_src := (rand_src s)(rand_pos s + 1 := k)\<rparr>)) ! i) ''error''
                   = Some (ABool True)
                 \<and> log_lines (simulateWork (Some i)
                     (s\<lparr>rand_src := (rand_src s)(rand_pos s + 1 := k)\<rparr>))
                   = log_lines s @ [''Simulated error occurred'']} = {0}"
    using assms by (auto simp: simulateWork_recording set_attrs_def)
  then have B: "card {k \<in> {..<10}. span_attrs (spans (simulateWork (Some i)
                     (s\<lparr>rand_src := (rand_src s)(rand_pos s + 1 := k)\<rparr>)) ! i) ''error''
                   = Some (ABool True)
                 \<and> log_lines (simulateWork (Some i)
                     (s\<lparr>rand_src := (rand_src s)(rand_pos s + 1 := k)\<rparr>))
                   = log_lines s @ [''Simulated error occurred'']} = 1"
    by simp
  have C: "(let ms = rand_src s (rand_pos s) mod 500; e = rand_src s (rand_pos s + 1) mod 10;
              s' = simulateWork (Some i) s
          in ms < 500
             \<and> sleeps s' = sleeps s @ [int ms * Millisecond]
             \<and> clock s' = clock s + int ms * Millisecond
             \<and> span_attrs (spans s' ! i) ''work.type'' = Some (AString ''processing'')
             \<and> span_attrs (spans s' ! i) ''work.duration_ms'' = Some (AInt (int ms))
             \<and> (if e = 0
                 then span_attrs (spans s' ! i) ''error'' = Some (ABool True)
                      \<and> log_lines s' = log_lines s @ [''Simulated error occurred'']
                 else span_attrs (spans s' ! i) ''error'' = span_attrs (spans s ! i) ''error''
                      \<and> log_lines s' = log_lines s)
             \<and> rand_pos s' = rand_pos s + 2
             \<and> counter_log s' = counter_log s \<and> hist_log s' = hist_log s
             \<and> length (spans s') = length (spans s))"
    using assms by (simp add: simulateWork_recording set_attrs_def Let_def)
  from A B C D show ?thesis by blast
qed

theorem simulateWork_effect_witness:
  "0 < length (spans (snd (tracer_Start \<lparr>tracer_name = ''test-app'', tracer_version = []\<rparr> None
                        ''test_span'' example_world)))
   \<and> \<not> span_ended (spans (snd (tracer_Start \<lparr>tracer_name = ''test-app'', tracer_version = []\<rparr>
                                   None ''test_span'' example_world)) ! 0)
   \<and> sleeps (simulateWork (Some 0)
         (snd (tracer_Start \<lparr>tracer_name = ''test-app'', tracer_version = []\<rparr> None
                 ''test_span'' example_world))) = [3 * Millisecond]
   \<and> span_attrs (spans (simulateWork (Some 0)
         (snd (tracer_Start \<lparr>tracer_name = ''test-app'', tracer_version = []\<rparr> None
                 ''test_span'' example_world))) ! 0) ''work.duration_ms'' = Some (AInt 3)
   \<and> span_attrs (spans (simulateWork (Some 0)
         (snd (tracer_Start \<lparr>tracer_name = ''test-app'', tracer_version = []\<rparr> None
                 ''test_span'' example_world))) ! 0) ''error'' = Some (ABool True)"
proof -
  let ?s = "snd (tracer_Start \<lparr>tracer_name = ''test-app'', tracer_version = []\<rparr> None
                   ''test_span'' example_world)"
  have h: "0 < length (spans ?s)" "\<not> span_ended (spans ?s ! 0)"
    by (simp_all add: tracer_Start_def Let_def example_world_def)
  have v: "rand_src ?s (rand_pos ?s) mod 500 = 3" "rand_src ?s (rand_pos ?s + 1) mod 10 = 0"
    "sleeps ?s = []" "span_attrs (spans ?s ! 0) ''error'' = None"
    by (simp_all add: tracer_Start_def Let_def example_world_def)
  show ?thesis
    using simulateWork_effect [OF h] h v
    by (simp add: Let_def)
qed

text \<open>
  Claim C6: in the work handler the response and the status tag of the counter are
  decided by the handler's own draw alone. Two runs in any two states that agree on that
  draw give the same response and the same counter attributes; a run whose only
  difference is the error draw of the work simulator gives the same response and the
  same counter measurements, and neither run panics.
\<close>

theorem work_response_ignores_simulator_draw:
  assumes "telemetry_ready s" "telemetry_ready s'"
    and "rand_src s' (rand_pos s' + 4) mod 20 = rand_src s (rand_pos s + 4) mod 20"
  shows "fst (snd (workHandler w r s')) = fst (snd (workHandler w r s))
         \<and> snd (snd (snd (last (counter_log (snd (snd (workHandler w r s')))))))
           = snd (snd (snd (last (counter_log (snd (snd (workHandler w r s)))))))
         \<and> fst (snd (workHandler w r (s\<lparr>rand_src := (rand_src s)(rand_pos s + 3 := k)\<rparr>)))
           = fst (snd (workHandler w r s))
         \<and> counter_log (snd (snd (workHandler w r (s\<lparr>rand_src := (rand_src s)(rand_pos s + 3 := k)\<rparr>))))
           = counter_log (snd (snd (workHandler w r s)))
         \<and> fst (workHandler w r (s\<lparr>rand_src := (rand_src s)(rand_pos s + 3 := k)\<rparr>)) = None
         \<and> fst (workHandler w r s) = None"
proof -
  from assms(1) obtain c where c: "requestCounter s = Some c"
    by (auto simp: telemetry_ready_def)
  from assms(2) obtain c' where c': "requestCounter s' = Some c'"
    by (auto simp: telemetry_ready_def)
  let ?sk = "s\<lparr>rand_src := (rand_src s)(rand_pos s + 3 := k)\<rparr>"
  have rk: "telemetry_ready ?sk" using assms(1) by (simp add: ready_rand_src_update)
  have ck: "requestCounter ?sk = Some c" using c by simp
  have p: "fst (workHandler w r ?sk) = None" "fst (workHandler w r s) = None"
  proof -
    from rk obtain t c h where
      "tracer ?sk = Some t" "requestCounter ?sk = Some c" "requestDuration ?sk = Some h"
      by (rule ready_handles)
    then show "fst (workHandler w r ?sk) = None"
      by (simp only: workHandler_run Let_def fst_conv)
    from assms(1) obtain t c h where
      "tracer s = Some t" "requestCounter s = Some c" "requestDuration s = Some h"
      by (rule ready_handles)
    then show "fst (workHandler w r s) = None"
      by (simp only: workHandler_run Let_def fst_conv)
  qed
  show ?thesis
    using assms(3) p
    by (simp add: workHandler_writer [OF assms(1)] workHandler_writer [OF assms(2)]
          workHandler_writer [OF rk]
          workHandler_counter_log [OF assms(1) c] workHandler_counter_log [OF assms(2) c']
          workHandler_counter_log [OF rk ck])
qed

theorem work_response_ignores_simulator_draw_witness:
  "telemetry_ready example_world
   \<and> telemetry_ready (example_world\<lparr>rand_src := (\<lambda>i. 20 * i + 11), rand_pos := 9\<rparr>)
   \<and> rand_src (example_world\<lparr>rand_src := (\<lambda>i. 20 * i + 11), rand_pos := 9\<rparr>)
        (rand_pos (example_world\<lparr>rand_src := (\<lambda>i. 20 * i + 11), rand_pos := 9\<rparr>) + 4) mod 20
      = rand_src example_world (rand_pos example_world + 4) mod 20
   \<and> fst (snd (workHandler (NewRecorder plain_sniff) (example_request ''GET'' ''/work'')
                  (example_world\<lparr>rand_src := (\<lambda>i. 20 * i + 11), rand_pos := 9\<rparr>)))
      = fst (snd (workHandler (NewRecorder plain_sniff) (example_request ''GET'' ''/work'')
                  example_world))
   \<and> fst (snd (workHandler (NewRecorder plain_sniff) (example_request ''GET'' ''/work'')
                  (example_world\<lparr>rand_src := (rand_src example_world)
                                             (rand_pos example_world + 3 := 0)\<rparr>)))
      = fst (snd (workHandler (NewRecorder plain_sniff) (example_request ''GET'' ''/work'')
                  example_world))"
proof -
  have r: "telemetry_ready (example_world\<lparr>rand_src := (\<lambda>i. 20 * i + 11), rand_pos := 9\<rparr>)"
    by (simp add: telemetry_ready_def example_world_def)
  have d: "rand_src (example_world\<lparr>rand_src := (\<lambda>i. 20 * i + 11), rand_pos := 9\<rparr>)
        (rand_pos (example_world\<lparr>rand_src := (\<lambda>i. 20 * i + 11), rand_pos := 9\<rparr>) + 4) mod 20
      = rand_src example_world (rand_pos example_world + 4) mod 20"
    by (simp add: example_world_def)
  show ?thesis
    using work_response_ignores_simulator_draw [OF example_ready r d,
            of "NewRecorder plain_sniff" "example_request ''GET'' ''/work''" 0]
      example_ready r d
    by blast
qed

text \<open>
  Claim C7: no handler keeps state from one request to the next. In two process states
  with any two histories (spans, measurements, log, clock, position of the random
  source), a handler given the same writer and request and the same upcoming draws gives
  the same response; and a handler leaves the four package-level handles as they are, so
  that the state after any sequence of requests is again such a state.
\<close>

theorem handlers_hold_no_state:
  assumes "telemetry_ready s" "telemetry_ready s'"
    and "\<forall>i. rand_src s' (rand_pos s' + i) = rand_src s (rand_pos s + i)"
    and "\<forall>i. rand_unit s' (rand_pos s' + i) = rand_unit s (rand_pos s + i)"
    and "handler \<in> {healthHandler, workHandler, metricsHandler}"
  shows "fst (snd (handler w r s')) = fst (snd (handler w r s))
         \<and> fst (handler w r s') = None \<and> fst (handler w r s) = None
         \<and> tracer (snd (snd (handler w r s))) = tracer s
         \<and> meter (snd (snd (handler w r s))) = meter s
         \<and> requestCounter (snd (snd (handler w r s))) = requestCounter s
         \<and> requestDuration (snd (snd (handler w r s))) = requestDuration s
         \<and> telemetry_ready (snd (serve routes sniff rs s))"
proof -
  have u0: "rand_unit s' (rand_pos s') = rand_unit s (rand_pos s)"
    using assms(4) [rule_format, of 0] by simp
  have u1: "rand_unit s' (rand_pos s' + 1) = rand_unit s (rand_pos s + 1)"
    using assms(4) [rule_format, of 1] by simp
  have d: "rand_src s' (rand_pos s' + 4) = rand_src s (rand_pos s + 4)"
    using assms(3) by blast
  from assms(5) consider "handler = healthHandler" | "handler = workHandler"
    | "handler = metricsHandler" by blast
  then have "fst (snd (handler w r s')) = fst (snd (handler w r s))
         \<and> fst (handler w r s') = None \<and> fst (handler w r s) = None"
  proof cases
    case 1
    then show ?thesis
      by (simp add: healthHandler_writer [OF assms(1)] healthHandler_writer [OF assms(2)])
  next
    case 2
    then show ?thesis
      by (simp add: workHandler_writer [OF assms(1)] workHandler_writer [OF assms(2)]
            workHandler_no_panic [OF assms(1)] workHandler_no_panic [OF assms(2)] d)
  next
    case 3
    then show ?thesis
      using u0 u1
      by (simp add: metricsHandler_writer [OF assms(1)] metricsHandler_writer [OF assms(2)])
  qed
  then show ?thesis
    using handlers_keep_handles [OF assms(1,5)] serve_ready [OF assms(1)] by simp
qed

theorem handlers_hold_no_state_witness:
  "telemetry_ready example_world
   \<and> telemetry_ready (snd (snd (healthHandler (NewRecorder plain_sniff)
                         (example_request ''GET'' ''/health'') example_world)))
   \<and> spans (snd (snd (healthHandler (NewRecorder plain_sniff)
                         (example_request ''GET'' ''/health'') example_world))) \<noteq> spans example_world
   \<and> workHandler \<in> {healthHandler, workHandler, metricsHandler}
   \<and> fst (snd (workHandler (NewRecorder plain_sniff) (example_request ''GET'' ''/work'')
         (snd (snd (healthHandler (NewRecorder plain_sniff)
                         (example_request ''GET'' ''/health'') example_world)))))
      = fst (snd (workHandler (NewRecorder plain_sniff) (example_request ''GET'' ''/work'')
                    example_world))"
proof -
  let ?s' = "snd (snd (healthHandler (NewRecorder plain_sniff)
                         (example_request ''GET'' ''/health'') example_world))"
  have hs: "tracer example_world = Some \<lparr>tracer_name = ''sample-app'', tracer_version = ''1.0.0''\<rparr>"
    "requestCounter example_world = Some \<lparr>instr_name = ''http_requests_total'',
         instr_desc = ''Total number of HTTP requests''\<rparr>"
    "requestDuration example_world = Some \<lparr>instr_name = ''http_request_duration_seconds'',
         instr_desc = ''HTTP request duration in seconds''\<rparr>"
    by (simp_all add: example_world_def)
  have r: "telemetry_ready ?s'"
    using example_ready by (simp add: healthHandler_run [OF hs] telemetry_ready_def)
  have a: "\<forall>i. rand_src ?s' (rand_pos ?s' + i) = rand_src example_world (rand_pos example_world + i)"
    "\<forall>i. rand_unit ?s' (rand_pos ?s' + i) = rand_unit example_world (rand_pos example_world + i)"
    by (simp_all add: healthHandler_run [OF hs])
  have n: "spans ?s' \<noteq> spans example_world"
    by (simp add: healthHandler_run [OF hs])
  have m: "workHandler \<in> {healthHandler, workHandler, metricsHandler}" by simp
  show ?thesis
    using handlers_hold_no_state [OF example_ready r a m,
            of "NewRecorder plain_sniff" "example_request ''GET'' ''/work''"]
      example_ready r n m
    by blast
qed

text \<open>
  Claim C8: \<open>initTelemetry\<close> returns an error exactly when one of its five construction
  steps (resource, trace exporter, metric exporter, counter, histogram) fails, and when it
  returns none all four handles are initialised. When it returns an error, \<open>main\<close> writes
  the fatal log line and exits with status 1, having registered no handler, started no
  listener and served no request. When the listener cannot bind, \<open>main\<close> writes the fatal
  log line and exits with status 1 without having served a request.
\<close>

theorem startup_failure_is_fatal:
  "(fst (initTelemetry env s) \<noteq> None \<longleftrightarrow>
      resource_New env \<noteq> None \<or> otlptracehttp_New env \<noteq> None \<or> otlpmetrichttp_New env \<noteq> None
      \<or> meter_Int64Counter env \<noteq> None \<or> meter_Float64Histogram env \<noteq> None)
   \<and> (fst (initTelemetry env s) = None \<longrightarrow>
        tracer (snd (initTelemetry env s)) \<noteq> None \<and> meter (snd (initTelemetry env s)) \<noteq> None
        \<and> requestCounter (snd (initTelemetry env s)) \<noteq> None
        \<and> requestDuration (snd (initTelemetry env s)) \<noteq> None
        \<and> telemetry_ready (snd (initTelemetry env s))
        \<and> map_option instr_name (requestCounter (snd (initTelemetry env s)))
            = Some ''http_requests_total''
        \<and> map_option instr_name (requestDuration (snd (initTelemetry env s)))
            = Some ''http_request_duration_seconds'')
   \<and> (\<forall>err. fst (initTelemetry env s) = Some err \<longrightarrow>
        exit_code (main env s) = Some 1 \<and> registered (main env s) = []
        \<and> listen_addr (main env s) = None \<and> responses (main env s) = []
        \<and> log_lines (final (main env s)) =
            log_lines s @ [''Failed to initialize telemetry: '' @ error_string err]
        \<and> spans (final (main env s)) = spans s
        \<and> counter_log (final (main env s)) = counter_log s
        \<and> hist_log (final (main env s)) = hist_log s)
   \<and> (\<forall>err. fst (initTelemetry env s) = None
          \<and> http_ListenAndServe env ('':'' @ (if os_Getenv env ''PORT'' = [] then ''8080''
                                               else os_Getenv env ''PORT'')) = BindError err \<longrightarrow>
        exit_code (main env s) = Some 1
        \<and> listen_addr (main env s) = None \<and> responses (main env s) = []
        \<and> last (log_lines (final (main env s))) = ''Server failed to start: '' @ error_string err
        \<and> spans (final (main env s)) = spans s
        \<and> counter_log (final (main env s)) = counter_log s
        \<and> hist_log (final (main env s)) = hist_log s)"
proof (intro conjI allI impI)
  show "fst (initTelemetry env s) \<noteq> None \<longleftrightarrow>
      resource_New env \<noteq> None \<or> otlptracehttp_New env \<noteq> None \<or> otlpmetrichttp_New env \<noteq> None
      \<or> meter_Int64Counter env \<noteq> None \<or> meter_Float64Histogram env \<noteq> None"
    by (rule initTelemetry_error_iff)
next
  assume ok: "fst (initTelemetry env s) = None"
  from initTelemetry_success [OF ok]
  show "tracer (snd (initTelemetry env s)) \<noteq> None" "meter (snd (initTelemetry env s)) \<noteq> None"
    "requestCounter (snd (initTelemetry env s)) \<noteq> None"
    "requestDuration (snd (initTelemetry env s)) \<noteq> None"
    "telemetry_ready (snd (initTelemetry env s))"
    "map_option instr_name (requestCounter (snd (initTelemetry env s)))
       = Some ''http_requests_total''"
    "map_option instr_name (requestDuration (snd (initTelemetry env s)))
       = Some ''http_request_duration_seconds''"
    by simp_all
next
  fix err assume e: "fst (initTelemetry env s) = Some err"
  show "exit_code (main env s) = Some 1" "registered (main env s) = []"
    "listen_addr (main env s) = None" "responses (main env s) = []"
    "log_lines (final (main env s)) =
            log_lines s @ [''Failed to initialize telemetry: '' @ error_string err]"
    "spans (final (main env s)) = spans s"
    "counter_log (final (main env s)) = counter_log s"
    "hist_log (final (main env s)) = hist_log s"
    by (simp_all add: main_init_failure [OF e] log_Printf_def initTelemetry_logs)
next
  fix err assume "fst (initTelemetry env s) = None
          \<and> http_ListenAndServe env ('':'' @ (if os_Getenv env ''PORT'' = [] then ''8080''
                                               else os_Getenv env ''PORT'')) = BindError err"
  then have b: "fst (initTelemetry env s) = None"
    "http_ListenAndServe env ('':'' @ (if os_Getenv env ''PORT'' = [] then ''8080''
                                               else os_Getenv env ''PORT'')) = BindError err"
    by simp_all
  show "exit_code (main env s) = Some 1"
    "listen_addr (main env s) = None" "responses (main env s) = []"
    "last (log_lines (final (main env s))) = ''Server failed to start: '' @ error_string err"
    "spans (final (main env s)) = spans s"
    "counter_log (final (main env s)) = counter_log s"
    "hist_log (final (main env s)) = hist_log s"
    by (simp_all add: main_bind_failure [OF b] log_Printf_def initTelemetry_logs)
qed

theorem startup_failure_is_fatal_witness:
  "fst (initTelemetry (example_env\<lparr>otlpmetrichttp_New := Some (Error ''no endpoint'')\<rparr>) blank_world)
     = Some (Error ''failed to create metric exporter: no endpoint'')
   \<and> exit_code (main (example_env\<lparr>otlpmetrichttp_New := Some (Error ''no endpoint'')\<rparr>) blank_world)
     = Some 1
   \<and> responses (main (example_env\<lparr>otlpmetrichttp_New := Some (Error ''no endpoint'')\<rparr>) blank_world)
     = []
   \<and> log_lines (final (main (example_env\<lparr>otlpmetrichttp_New := Some (Error ''no endpoint'')\<rparr>)
                         blank_world))
     = [''Failed to initialize telemetry: failed to create metric exporter: no endpoint'']
   \<and> fst (initTelemetry example_env blank_world) = None
   \<and> http_ListenAndServe example_env '':8080''
     = BindError (Error ''listen tcp :8080: bind: address already in use'')
   \<and> telemetry_ready (snd (initTelemetry example_env blank_world))
   \<and> exit_code (main example_env blank_world) = Some 1
   \<and> responses (main example_env blank_world) = []
   \<and> last (log_lines (final (main example_env blank_world)))
     = ''Server failed to start: listen tcp :8080: bind: address already in use''"
proof -
  let ?env = "example_env\<lparr>otlpmetrichttp_New := Some (Error ''no endpoint'')\<rparr>"
  have f: "fst (initTelemetry ?env blank_world)
             = Some (Error ''failed to create metric exporter: no endpoint'')"
    by (simp add: initTelemetry_def example_env_def Errorf_w_def Let_def)
  have l: "log_lines blank_world = []"
    by (simp add: blank_world_def)
  have ok: "fst (initTelemetry example_env blank_world) = None"
    by (simp add: initTelemetry_def example_env_def Let_def)
  have b: "http_ListenAndServe example_env ('':'' @ (if os_Getenv example_env ''PORT'' = [] then ''8080''
             else os_Getenv example_env ''PORT''))
     = BindError (Error ''listen tcp :8080: bind: address already in use'')"
    "http_ListenAndServe example_env '':8080''
     = BindError (Error ''listen tcp :8080: bind: address already in use'')"
    by (simp_all add: example_env_def)
  show ?thesis
    using startup_failure_is_fatal [of ?env blank_world]
      startup_failure_is_fatal [of example_env blank_world] f l ok b
    by (simp add: error_string_def)
qed

text \<open>
  Claim C9: the handlers impose no restriction on the method. For every method string,
  also one other than \<open>GET\<close> and \<open>POST\<close>, each handler answers as it does for \<open>GET\<close>, the
  health handler with 200 and \<open>OK\<close>; the \<open>method\<close> attribute of the counter is the method
  string of the request; and the patterns that \<open>main\<close> registers carry no method, so a
  request for \<open>/health\<close>, \<open>/work\<close> or \<open>/metrics\<close> reaches its handler whatever its method.
\<close>

theorem handlers_accept_every_method:
  assumes "telemetry_ready s" "handler \<in> {healthHandler, workHandler, metricsHandler}"
  shows "fst (snd (handler w (r\<lparr>Method := m\<rparr>) s)) = fst (snd (handler w (r\<lparr>Method := ''GET''\<rparr>) s))
         \<and> fst (handler w (r\<lparr>Method := m\<rparr>) s) = None
         \<and> (\<exists>c cx ep st. last (counter_log (snd (snd (handler w (r\<lparr>Method := m\<rparr>) s)))) =
               (c, cx, 1, [(''method'', AString m), (''endpoint'', AString ep),
                           (''status'', AString st)]))
         \<and> mux_handler routes (r\<lparr>Method := m, URL := ''/health''\<rparr>) = Registered healthHandler
         \<and> mux_handler routes (r\<lparr>Method := m, URL := ''/work''\<rparr>) = Registered workHandler
         \<and> mux_handler routes (r\<lparr>Method := m, URL := ''/metrics''\<rparr>)
             = Registered metricsHandler
         \<and> Code (fst (snd (healthHandler (NewRecorder sniff) (r\<lparr>Method := m\<rparr>) s))) = 200
         \<and> Body (fst (snd (healthHandler (NewRecorder sniff) (r\<lparr>Method := m\<rparr>) s))) = ''OK''"
proof -
  have A: "fst (snd (handler w (r\<lparr>Method := m\<rparr>) s)) = fst (snd (handler w (r\<lparr>Method := ''GET''\<rparr>) s))"
    using handler_writer_ignores_method(1) [OF assms, where w = w and r = r and m = m]
      handler_writer_ignores_method(1) [OF assms, where w = w and r = r and m = "''GET''"]
    by simp
  have B: "fst (handler w (r\<lparr>Method := m\<rparr>) s) = None"
    by (rule handler_writer_ignores_method(2) [OF assms])
  have C: "\<exists>c cx ep st. last (counter_log (snd (snd (handler w (r\<lparr>Method := m\<rparr>) s)))) =
               (c, cx, 1, [(''method'', AString m), (''endpoint'', AString ep),
                           (''status'', AString st)])"
    using handler_counter_method [OF assms, where w = w and r = "r\<lparr>Method := m\<rparr>"] by simp
  have D: "mux_handler routes (r\<lparr>Method := m, URL := ''/health''\<rparr>) = Registered healthHandler"
    "mux_handler routes (r\<lparr>Method := m, URL := ''/work''\<rparr>) = Registered workHandler"
    "mux_handler routes (r\<lparr>Method := m, URL := ''/metrics''\<rparr>) = Registered metricsHandler"
    by (simp_all add: mux_handler_def clean_registered_paths routes_def)
  have E: "Code (fst (snd (healthHandler (NewRecorder sniff) (r\<lparr>Method := m\<rparr>) s))) = 200
         \<and> Body (fst (snd (healthHandler (NewRecorder sniff) (r\<lparr>Method := m\<rparr>) s))) = ''OK''"
    by (simp add: healthHandler_writer [OF assms(1)] Write_after_WriteHeader fresh_recorder StatusOK_def)
  from A B C D E show ?thesis by blast
qed

theorem handlers_accept_every_method_witness:
  "telemetry_ready example_world
   \<and> healthHandler \<in> {healthHandler, workHandler, metricsHandler}
   \<and> fst (snd (healthHandler (NewRecorder plain_sniff)
                  ((example_request ''GET'' ''/health'')\<lparr>Method := ''DELETE''\<rparr>) example_world))
      = fst (snd (healthHandler (NewRecorder plain_sniff)
                  ((example_request ''GET'' ''/health'')\<lparr>Method := ''GET''\<rparr>) example_world))
   \<and> mux_handler routes ((example_request ''GET'' ''/health'')
                            \<lparr>Method := ''DELETE'', URL := ''/health''\<rparr>)
      = Registered healthHandler
   \<and> Code (fst (snd (healthHandler (NewRecorder plain_sniff)
                  ((example_request ''GET'' ''/health'')\<lparr>Method := ''DELETE''\<rparr>) example_world))) = 200
   \<and> Body (fst (snd (healthHandler (NewRecorder plain_sniff)
                  ((example_request ''GET'' ''/health'')\<lparr>Method := ''DELETE''\<rparr>) example_world))) = ''OK''"
proof -
  have m: "healthHandler \<in> {healthHandler, workHandler, metricsHandler}" by simp
  show ?thesis
    using handlers_accept_every_method [OF example_ready m,
            where w = "NewRecorder plain_sniff" and sniff = plain_sniff
              and r = "example_request ''GET'' ''/health''" and m = "''DELETE''"]
      example_ready m
    by blast
qed

text \<open>
  Claim C10: the work handler adds two spans. The attributes of \<open>simulateWork\<close>
  (\<open>work.type\<close>, \<open>work.duration_ms\<close> and its \<open>error = true\<close>) are on the child span
  \<open>nested_operation\<close>, whose parent is the request span \<open>do_work\<close>; the \<open>error = true\<close> of
  the 500 answer is on the request span. The two are different spans.
\<close>

theorem work_annotations_on_two_spans:
  assumes "telemetry_ready s"
  shows "(let n = length (spans s); s' = snd (snd (workHandler w r s));
              parent = spans s' ! n; child = spans s' ! (n + 1);
              ms = rand_src s (rand_pos s + 2) mod 500;
              e = rand_src s (rand_pos s + 3) mod 10;
              d = rand_src s (rand_pos s + 4) mod 20
          in length (spans s') = n + 2 \<and> take n (spans s') = spans s
             \<and> span_name parent = ''do_work'' \<and> span_parent parent = ReqCtx r
             \<and> span_name child = ''nested_operation'' \<and> span_parent child = Some n
             \<and> span_attrs child ''work.type'' = Some (AString ''processing'')
             \<and> span_attrs child ''work.duration_ms'' = Some (AInt (int ms))
             \<and> span_attrs child ''error'' = (if e = 0 then Some (ABool True) else None)
             \<and> span_attrs parent ''error'' = (if d = 0 then Some (ABool True) else None)
             \<and> span_attrs parent ''work.type'' = None
             \<and> span_attrs parent ''work.duration_ms'' = None
             \<and> span_attrs child ''user.id'' = None \<and> span_attrs child ''request.id'' = None
             \<and> n \<noteq> n + 1)"
  by (simp add: workHandler_spans [OF assms] Let_def set_attrs_def nth_append)

theorem work_annotations_on_two_spans_witness:
  "telemetry_ready example_world
   \<and> span_name (spans (snd (snd (workHandler (NewRecorder plain_sniff)
                 (example_request ''GET'' ''/work'') example_world))) ! 0) = ''do_work''
   \<and> span_name (spans (snd (snd (workHandler (NewRecorder plain_sniff)
                 (example_request ''GET'' ''/work'') example_world))) ! 1) = ''nested_operation''
   \<and> span_attrs (spans (snd (snd (workHandler (NewRecorder plain_sniff)
                 (example_request ''GET'' ''/work'') example_world))) ! 1) ''work.duration_ms''
      = Some (AInt 17)
   \<and> span_attrs (spans (snd (snd (workHandler (NewRecorder plain_sniff)
                 (example_request ''GET'' ''/work'') example_world))) ! 0) ''work.duration_ms''
      = None"
proof -
  have v: "length (spans example_world) = 0" "rand_src example_world (rand_pos example_world + 2) mod 500 = 17"
    by (simp_all add: example_world_def)
  show ?thesis
    using work_annotations_on_two_spans [OF example_ready,
            of "NewRecorder plain_sniff" "example_request ''GET'' ''/work''"]
      example_ready v
    by (simp add: Let_def)
qed

end
